theory Spec2Isabelle
  imports
    Main
    "HOL-Library.Sublist"
    "HOL-Library.Char_ord"
    "HOL-Library.List_Lexorder"
    "HOL-Library.Product_Lexorder"
    "HOL-Library.Code_Target_Nat"
    "HOL-Library.Multiset"
begin

section \<open>Python strings\<close>

text \<open>
  Text is a \<^typ>\<open>string\<close>; a character stands for the code point of the same number, so
  the model covers text whose code points are below 256. The helpers below follow the
  methods of Python's \<open>str\<close> that \<open>ndu.py\<close> calls.
\<close>

definition is_upper :: "char \<Rightarrow> bool" where
  "is_upper c = (let n = (of_char c :: nat) in
     (65 \<le> n \<and> n \<le> 90) \<or> (192 \<le> n \<and> n \<le> 222 \<and> n \<noteq> 215))"

definition lower_char :: "char \<Rightarrow> char" where
  "lower_char c = (if is_upper c then char_of ((of_char c :: nat) + 32) else c)"

text \<open>\<open>str.lower()\<close>.\<close>

definition lower :: "string \<Rightarrow> string" where
  "lower s = map lower_char s"

text \<open>
  Whitespace as \<open>str.strip()\<close> and \<open>str.rstrip()\<close> see it: the code points 9 to 13,
  28 to 32, 133 and 160.
\<close>

definition is_space :: "char \<Rightarrow> bool" where
  "is_space c = (let n = (of_char c :: nat) in
     (9 \<le> n \<and> n \<le> 13) \<or> (28 \<le> n \<and> n \<le> 32) \<or> n = 133 \<or> n = 160)"

definition rstrip :: "string \<Rightarrow> string" where
  "rstrip s = rev (dropWhile is_space (rev s))"

definition strip :: "string \<Rightarrow> string" where
  "strip s = rstrip (dropWhile is_space s)"

text \<open>\<open>s.strip(c)\<close> for a single character \<open>c\<close>.\<close>

definition strip_char :: "char \<Rightarrow> string \<Rightarrow> string" where
  "strip_char c s = rev (dropWhile (\<lambda>x. x = c) (rev (dropWhile (\<lambda>x. x = c) s)))"

text \<open>
  \<open>s.replace(old, new)\<close> for a non-empty \<open>old\<close>, which is every call in the source:
  the occurrences are replaced from left to right and never overlap.
\<close>

function replace :: "string \<Rightarrow> string \<Rightarrow> string \<Rightarrow> string" where
  "replace old new [] = []"
| "replace old new (c # cs) =
     (if old \<noteq> [] \<and> prefix old (c # cs)
      then new @ replace old new (drop (length old) (c # cs))
      else c # replace old new cs)"
  by pat_completeness auto
termination
  by (relation "measure (\<lambda>(old, new, s). length s)") (auto simp: neq_Nil_conv)

text \<open>\<open>s[:n].ljust(n)\<close>.\<close>

definition ljust :: "nat \<Rightarrow> string \<Rightarrow> string" where
  "ljust n s = s @ replicate (n - length s) CHR '' ''"

text \<open>\<open>sep.join(xs)\<close>.\<close>

fun join :: "string \<Rightarrow> string list \<Rightarrow> string" where
  "join sep [] = []"
| "join sep [x] = x"
| "join sep (x # y # ys) = x @ sep @ join sep (y # ys)"

section \<open>Paths and extension validation\<close>

text \<open>
  A path is described by what \<open>_is_file_of_type\<close> reads from it: the list
  \<open>Path(p).suffixes\<close> and whether it names an existing file or directory.
\<close>

record path =
  name :: string
  suffixes :: "string list"
  is_file :: bool
  is_dir :: bool

datatype extension = ExtStr string | ExtList "string list"

definition FILE_EXTENSIONS :: "(string \<times> extension) list" where
  "FILE_EXTENSIONS =
    [(''ndugff'', ExtStr ''.ndugff''),
     (''json'', ExtStr ''.json''),
     (''gff'', ExtList
        [''.are'', ''.git'', ''.gic'',
         ''.bic'',
         ''.dlg'',
         ''.gff'',
         ''.gui'',
         ''.ifo'', ''.fac'', ''.jrl'',
         ''.itp'',
         ''.utc'', ''.utd'', ''.ute'', ''.uti'', ''.utm'', ''.utp'', ''.uts'', ''.utt'', ''.utw'']),
     (''erf'', ExtList [''.erf'', ''.hak'', ''.mod'', ''.nwm''])]"

text \<open>One suffix checked against an entry of \<open>FILE_EXTENSIONS\<close>; an absent entry fails.\<close>

definition suffix_matches :: "string \<Rightarrow> extension option \<Rightarrow> bool" where
  "suffix_matches sfx ext =
     (case ext of
        Some (ExtStr e) \<Rightarrow> sfx = e
      | Some (ExtList es) \<Rightarrow> sfx \<in> set es
      | None \<Rightarrow> False)"

text \<open>
  \<open>_Paths._is_file_of_type\<close>. The split of the suffixes is an option: \<open>None\<close> is the
  \<open>return False\<close> of the \<open>else\<close> branch, and the inner option is \<open>base_suffix\<close>.
\<close>

definition split_suffixes :: "string list \<Rightarrow> (string \<times> string option) option" where
  "split_suffixes sfxs =
     (if length sfxs = 2 then Some (lower (last sfxs), Some (lower (hd sfxs)))
      else if length sfxs = 1 then Some (lower (hd sfxs), None)
      else None)"

definition is_file_of_type ::
  "path \<Rightarrow> bool \<Rightarrow> string \<Rightarrow> string option \<Rightarrow> bool \<Rightarrow> bool" where
  "is_file_of_type arg_path arg_skip_exist arg_target_type arg_base_type arg_is_folder =
     (case split_suffixes (suffixes arg_path) of
        None \<Rightarrow> False
      | Some (target_suffix, base_suffix) \<Rightarrow>
          if \<not> suffix_matches target_suffix (map_of FILE_EXTENSIONS arg_target_type) then False
          else if (case (arg_base_type, base_suffix) of
                     (Some bt, Some bs) \<Rightarrow>
                        bt \<noteq> [] \<and> bs \<noteq> [] \<and> \<not> suffix_matches bs (map_of FILE_EXTENSIONS bt)
                   | _ \<Rightarrow> False) then False
          else if arg_is_folder then arg_skip_exist \<or> is_dir arg_path
          else arg_skip_exist \<or> is_file arg_path)"

definition is_gff_file :: "path \<Rightarrow> bool \<Rightarrow> bool" where
  "is_gff_file arg_path arg_skip_exist =
     is_file_of_type arg_path arg_skip_exist ''gff'' None False"

definition is_ndugff_file :: "path \<Rightarrow> bool \<Rightarrow> bool" where
  "is_ndugff_file arg_path arg_skip_exist =
     is_file_of_type arg_path arg_skip_exist ''ndugff'' (Some ''gff'') False"

definition is_json_file :: "path \<Rightarrow> bool \<Rightarrow> bool" where
  "is_json_file arg_path arg_skip_exist =
     is_file_of_type arg_path arg_skip_exist ''json'' (Some ''gff'') False"

definition is_erf_file :: "path \<Rightarrow> bool \<Rightarrow> bool" where
  "is_erf_file arg_path arg_skip_exist =
     is_file_of_type arg_path arg_skip_exist ''erf'' None False"

definition is_erf_folder :: "path \<Rightarrow> bool \<Rightarrow> bool" where
  "is_erf_folder arg_path arg_skip_exist =
     is_file_of_type arg_path arg_skip_exist ''erf'' None True"

section \<open>ERF file types\<close>

definition ERF_TYPES :: "(string \<times> string) list" where
  "ERF_TYPES =
    [(''.erf'', ''ERF ''),
     (''.mod'', ''MOD ''),
     (''.hak'', ''HAK ''),
     (''.nvm'', ''NVM '')]"

text \<open>
  \<open>_Erf._Single._get_erf_type_by_extension\<close>: the result is the file type and the lines
  printed on the way. \<open>erf_type or b"ERF"\<close> takes the default also for an empty type.
\<close>

definition get_erf_type_by_extension :: "string \<Rightarrow> string \<times> string list" where
  "get_erf_type_by_extension arg_ext =
     (let erf_type = map_of ERF_TYPES (lower arg_ext);
          printed = (if erf_type = None
                     then [[CHR 0x22] @ arg_ext @ [CHR 0x22] @
                           '' is not a recognized file extension. '' @
                           ''Falling back to the default file type (ERF).'']
                     else [])
      in (case erf_type of
            None \<Rightarrow> (''ERF'', printed)
          | Some t \<Rightarrow> (if t = [] then ''ERF'' else t, printed)))"

section \<open>Python conversions between text and numbers\<close>

definition is_digit :: "char \<Rightarrow> bool" where
  "is_digit c = (let n = (of_char c :: nat) in 48 \<le> n \<and> n \<le> 57)"

definition digit_val :: "char \<Rightarrow> nat" where
  "digit_val c = of_char c - 48"

definition digit_char :: "nat \<Rightarrow> char" where
  "digit_char d = char_of (48 + d)"

text \<open>\<open>str(i)\<close> for an \<open>int\<close>: the decimal digits, with a minus sign below zero.\<close>

fun str_nat :: "nat \<Rightarrow> string" where
  "str_nat n = (if n < 10 then [digit_char n] else str_nat (n div 10) @ [digit_char (n mod 10)])"

declare str_nat.simps [simp del]

definition str_int :: "int \<Rightarrow> string" where
  "str_int i = (if i < 0 then CHR ''-'' # str_nat (nat (- i)) else str_nat (nat i))"

text \<open>
  \<open>int(s)\<close> for a \<open>str\<close>, in base ten. The whitespace that \<open>int\<close> drops around the
  number is not the one of \<open>str.strip\<close>: it is the code points 9 to 13, 32, 133 and 160,
  and the separators 28 to 31 make \<open>int\<close> fail. One sign may lead, and single
  underscores may stand between digits. A text with more than \<open>MAX_STR_DIGITS\<close> digits,
  the default of \<open>sys.get_int_max_str_digits()\<close>, fails as well. \<open>None\<close> is the
  \<open>ValueError\<close>.
\<close>

definition is_int_space :: "char \<Rightarrow> bool" where
  "is_int_space c = (let n = (of_char c :: nat) in
     (9 \<le> n \<and> n \<le> 13) \<or> n = 32 \<or> n = 133 \<or> n = 160)"

definition MAX_STR_DIGITS :: nat where
  "MAX_STR_DIGITS = 4300"

fun parse_digits :: "nat \<Rightarrow> string \<Rightarrow> nat option" where
  "parse_digits acc [] = Some acc"
| "parse_digits acc (c # cs) =
     (if is_digit c then parse_digits (10 * acc + digit_val c) cs
      else if c = CHR ''_'' \<and> cs \<noteq> [] \<and> is_digit (hd cs) then parse_digits acc cs
      else None)"

definition py_int :: "string \<Rightarrow> int option" where
  "py_int s =
     (let t = rev (dropWhile is_int_space (rev (dropWhile is_int_space s)));
          neg = (t \<noteq> [] \<and> hd t = CHR ''-'');
          body = (if t \<noteq> [] \<and> (hd t = CHR ''-'' \<or> hd t = CHR ''+'') then tl t else t)
      in if body = [] \<or> \<not> is_digit (hd body) then None
         else if MAX_STR_DIGITS < length (filter is_digit body) then None
         else map_option (\<lambda>n. if neg then - int n else int n) (parse_digits 0 body))"

section \<open>The field type registry\<close>

datatype py_type = PyInt | PyFloat | PyStr | PyDict | PyList

record field_type =
  internal_value_type :: py_type
  dsl_type_name :: string
  json_type_name :: "string option"

definition FIELD_TYPES :: "(string \<times> field_type) list" where
  "FIELD_TYPES =
    [(''gff.Byte'', \<lparr>internal_value_type = PyInt, dsl_type_name = ''gff.Byte'',
        json_type_name = Some ''byte''\<rparr>),
     (''gff.Char'', \<lparr>internal_value_type = PyInt, dsl_type_name = ''gff.Char'',
        json_type_name = Some ''char''\<rparr>),
     (''gff.Word'', \<lparr>internal_value_type = PyInt, dsl_type_name = ''gff.Word'',
        json_type_name = Some ''word''\<rparr>),
     (''gff.Short'', \<lparr>internal_value_type = PyInt, dsl_type_name = ''gff.Short'',
        json_type_name = Some ''short''\<rparr>),
     (''gff.Int'', \<lparr>internal_value_type = PyInt, dsl_type_name = ''gff.Int'',
        json_type_name = Some ''int''\<rparr>),
     (''gff.Dword'', \<lparr>internal_value_type = PyInt, dsl_type_name = ''gff.Dword'',
        json_type_name = Some ''dword''\<rparr>),
     (''gff.Int64'', \<lparr>internal_value_type = PyInt, dsl_type_name = ''gff.Int64'',
        json_type_name = Some ''int64''\<rparr>),
     (''gff.Dword64'', \<lparr>internal_value_type = PyInt, dsl_type_name = ''gff.Dword64'',
        json_type_name = Some ''dword64''\<rparr>),
     (''gff.Float'', \<lparr>internal_value_type = PyFloat, dsl_type_name = ''gff.Float'',
        json_type_name = Some ''float''\<rparr>),
     (''gff.Double'', \<lparr>internal_value_type = PyFloat, dsl_type_name = ''gff.Double'',
        json_type_name = Some ''double''\<rparr>),
     (''gff.MagicTag'', \<lparr>internal_value_type = PyStr, dsl_type_name = ''gff.MagicTag'',
        json_type_name = Some ''__data_type''\<rparr>),
     (''gff.ResRef'', \<lparr>internal_value_type = PyStr, dsl_type_name = ''gff.ResRef'',
        json_type_name = Some ''resref''\<rparr>),
     (''gff.CExoString'', \<lparr>internal_value_type = PyStr, dsl_type_name = ''gff.CExoString'',
        json_type_name = Some ''cexostring''\<rparr>),
     (''gff.Language'', \<lparr>internal_value_type = PyStr, dsl_type_name = ''gff.Language'',
        json_type_name = None\<rparr>),
     (''gff.Base64String'', \<lparr>internal_value_type = PyStr,
        dsl_type_name = ''gff.Base64String'', json_type_name = Some ''void''\<rparr>),
     (''gff.CExoLocString'', \<lparr>internal_value_type = PyDict,
        dsl_type_name = ''gff.CExoLocString'', json_type_name = Some ''cexolocstring''\<rparr>),
     (''gff.Struct'', \<lparr>internal_value_type = PyDict, dsl_type_name = ''gff.Struct'',
        json_type_name = Some ''struct''\<rparr>),
     (''gff.List'', \<lparr>internal_value_type = PyList, dsl_type_name = ''gff.List'',
        json_type_name = Some ''list''\<rparr>)]"

definition NODE_TYPES :: "string set" where
  "NODE_TYPES = {''gff.CExoLocString'', ''gff.Struct'', ''gff.List''}"

definition ESCAPED_STRING_TYPES :: "string set" where
  "ESCAPED_STRING_TYPES = {''gff.CExoString'', ''gff.Language''}"

definition LITERAL_STRING_TYPES :: "string set" where
  "LITERAL_STRING_TYPES = {''gff.ResRef'', ''gff.MagicTag'', ''gff.Base64String''}"

definition GFF_UINT32_SENTINEL :: int where
  "GFF_UINT32_SENTINEL = 0xFFFFFFFF"

definition PRETTY_SENTINEL :: int where
  "PRETTY_SENTINEL = - 1"

text \<open>
  The loop \<open>for v in self._FIELD_TYPES.values(): if arg_dsl_type == v["dsl_type_name"]\<close>
  that several functions of the source share: the internal value type of the first entry
  with that DSL name.
\<close>

definition get_ndugff_value_type :: "string \<Rightarrow> py_type option" where
  "get_ndugff_value_type arg_dsl_type =
     map_option (\<lambda>(k, v). internal_value_type v)
       (find (\<lambda>(k, v). arg_dsl_type = dsl_type_name v) FIELD_TYPES)"

section \<open>The document held by the codec\<close>

text \<open>
  \<open>_Field._Key\<close>. The class defines neither \<open>__eq__\<close> nor \<open>__hash__\<close>, so two keys are
  never the same dictionary key: a dictionary keyed by them keeps every entry, in
  insertion order, and is a list of pairs here.
\<close>

record key =
  k_type :: string
  k_name :: string
  k_id :: "int option"

text \<open>
  The values of \<open>_ndugff_dict\<close>: \<open>int\<close>, \<open>float\<close>, \<open>str\<close>, \<open>dict\<close> and \<open>list\<close>. A float
  is held by its \<open>repr\<close>, the only thing the codec reads from it.
\<close>

datatype ndugff_value =
    VInt int
  | VFloat string
  | VStr string
  | VDict "(key \<times> ndugff_value) list"
  | VList "ndugff_value list"

type_synonym ndugff_dict = "(key \<times> ndugff_value) list"

text \<open>
  The exceptions of the source. \<open>log_and_raise\<close> prints its message and raises a bare
  \<open>ValueError\<close>; the message is kept as the payload. \<open>JSONDecodeError\<close> and
  \<open>UnicodeDecodeError\<close> are subclasses of \<open>ValueError\<close>. The other classes are the
  ones the handlers \<open>except ValueError\<close> of the loaders let through. The exceptions by
  which the interpreter gives up a computation for lack of room (\<open>RecursionError\<close> on a
  document nested deeper than its stack allows, \<open>MemoryError\<close>) are not modelled: what is
  proved below of a result holds of the inputs on which the interpreter comes to an end
  within those limits.
\<close>

datatype message =
    NoMatch
  | NoType
  | MissingId
  | MissingName
  | MissingValue
  | BackslashInLiteralString
  | BackslashInValue
  | CouldNotConvertId
  | CouldNotConvertValue
  | UnknownValueType
  | UnexpectedEnd
  | NotUnderStruct
  | NotInList
  | UnknownJsonType
  | UnknownDslType
  | UnknownLanguageId
  | NotOfExpectedType
  | MissingDataType
  | FieldTypeNotFound
  | FieldValueNotFound
  | ListValueNotList
  | StructValueNotDict
  | ListChildNotStruct
  | ListStructMissingId
  | UnknownLanguageName
  | InvalidLiteralForInt
  | JSONDecodeError
  | UnicodeDecodeError

datatype exn = ValueError message | AttributeError | TypeError | OverflowError | OSError

section \<open>Reading the DSL\<close>

subsection \<open>The tokenizer\<close>

text \<open>
  \<open>_DSL_TOKENIZER\<close> is the regular expression
  \<^verbatim>\<open>(?P<type>(?:gff.Byte|...|gff.List))\((?P<name>[\w ]*)\)\<close>
  \<^verbatim>\<open>(?:\.id\((?P<struct_id>-?\d+)\))?(?:\:[ ]*(?P<value>.+)$)?\<close>
  applied with \<open>match\<close>, which anchors at the start of the line only. The alternatives
  are the keys of \<open>_FIELD_TYPES\<close> in order; their dot is not escaped and stands for any
  character but a line feed. The pattern is a \<open>str\<close>, so \<open>\w\<close> is a letter, a digit or
  a numeric character of Unicode, or the underscore, and \<open>\d\<close> is a decimal digit of
  Unicode. Below the code point 256 these are: for \<open>\w\<close> the ASCII letters and digits,
  the underscore, the code points 170, 178, 179, 181, 185, 186, 188, 189, 190, and 192 to
  255 without 215 and 247; for \<open>\d\<close> the ASCII digits.
\<close>

definition is_word_char :: "char \<Rightarrow> bool" where
  "is_word_char c = (let n = (of_char c :: nat) in
     (48 \<le> n \<and> n \<le> 57) \<or> (65 \<le> n \<and> n \<le> 90) \<or> (97 \<le> n \<and> n \<le> 122) \<or> n = 95
     \<or> n \<in> {170, 178, 179, 181, 185, 186, 188, 189, 190}
     \<or> (192 \<le> n \<and> n \<le> 255 \<and> n \<noteq> 215 \<and> n \<noteq> 247))"

text \<open>A pattern of literal characters and dots against the start of a text: the rest.\<close>

fun match_pattern :: "string \<Rightarrow> string \<Rightarrow> string option" where
  "match_pattern [] s = Some s"
| "match_pattern (p # ps) [] = None"
| "match_pattern (p # ps) (c # cs) =
     (if (p = CHR ''.'' \<and> c \<noteq> CHR 0x0A) \<or> (p \<noteq> CHR ''.'' \<and> p = c)
      then match_pattern ps cs else None)"

text \<open>\<^verbatim>\<open>\((?P<name>[\w ]*)\)\<close>: the name and the rest.\<close>

definition match_name :: "string \<Rightarrow> (string \<times> string) option" where
  "match_name s =
     (case s of
        [] \<Rightarrow> None
      | c # cs \<Rightarrow>
          if c \<noteq> CHR ''('' then None
          else (let nm = takeWhile (\<lambda>x. is_word_char x \<or> x = CHR '' '') cs;
                    r = dropWhile (\<lambda>x. is_word_char x \<or> x = CHR '' '') cs
                in if r \<noteq> [] \<and> hd r = CHR '')'' then Some (nm, tl r) else None))"

text \<open>
  The alternatives in order: the first one that matches and is followed by a name in
  brackets is taken, which is what backtracking over the alternation comes to, the two
  optional groups after the name never failing.
\<close>

fun match_type :: "string list \<Rightarrow> string \<Rightarrow> (string \<times> string \<times> string) option" where
  "match_type [] s = None"
| "match_type (p # ps) s =
     (case match_pattern p s of
        None \<Rightarrow> match_type ps s
      | Some r \<Rightarrow>
          (case match_name r of
             None \<Rightarrow> match_type ps s
           | Some (nm, r') \<Rightarrow> Some (take (length p) s, nm, r')))"

text \<open>\<^verbatim>\<open>(?:\.id\((?P<struct_id>-?\d+)\))?\<close>: the group and the rest.\<close>

definition match_struct_id :: "string \<Rightarrow> string option \<times> string" where
  "match_struct_id s =
     (if prefix ''.id('' s then
        (let r = drop 4 s;
             sign = (if r \<noteq> [] \<and> hd r = CHR ''-'' then ''-'' else []);
             r1 = drop (length sign) r;
             ds = takeWhile is_digit r1;
             r2 = dropWhile is_digit r1
         in if ds \<noteq> [] \<and> r2 \<noteq> [] \<and> hd r2 = CHR '')'' then (Some (sign @ ds), tl r2)
            else (None, s))
      else (None, s))"

text \<open>
  \<^verbatim>\<open>(?:\:[ ]*(?P<value>.+)$)?\<close>. The dot stops at a line feed and \<open>$\<close> holds at the
  end or before one last line feed. When only spaces follow the colon, the greedy
  \<open>[ ]*\<close> gives its last space back to \<open>.+\<close>.
\<close>

definition match_value :: "string \<Rightarrow> string option" where
  "match_value s =
     (case s of
        [] \<Rightarrow> None
      | c # cs \<Rightarrow>
          if c \<noteq> CHR '':'' then None
          else (let sp = takeWhile (\<lambda>x. x = CHR '' '') cs;
                    b = dropWhile (\<lambda>x. x = CHR '' '') cs;
                    body = (if b \<noteq> [] \<and> last b = CHR 0x0A then butlast b else b)
                in if CHR 0x0A \<in> set body then None
                   else if body \<noteq> [] then Some body
                   else if sp \<noteq> [] then Some '' ''
                   else None))"

record tokens =
  t_type :: string
  t_name :: string
  t_struct_id :: "string option"
  t_value :: "string option"

definition DSL_TOKENIZER :: "string \<Rightarrow> tokens option" where
  "DSL_TOKENIZER s =
     (case match_type (map fst FIELD_TYPES) s of
        None \<Rightarrow> None
      | Some (ty, nm, r) \<Rightarrow>
          (let (sid, r') = match_struct_id r
           in Some \<lparr>t_type = ty, t_name = nm, t_struct_id = sid, t_value = match_value r'\<rparr>))"

subsection \<open>One line\<close>

text \<open>The class \<open>DslLine\<close> of \<open>load_ndugff\<close>; \<open>reset\<close> counts the lines in \<open>nth\<close>.\<close>

record dsl_line =
  l_nth :: nat
  l_raw :: string
  l_type :: "string option"
  l_name :: string
  l_struct_id :: "string option"
  l_value :: "string option"
  l_is_node :: bool
  l_is_node_end :: bool
  l_skip :: bool

definition reset :: "dsl_line \<Rightarrow> dsl_line" where
  "reset l = \<lparr>l_nth = l_nth l + 1, l_raw = [], l_type = None, l_name = [],
     l_struct_id = None, l_value = None, l_is_node = False, l_is_node_end = False,
     l_skip = False\<rparr>"

text \<open>The line object after \<open>DslLine()\<close>.\<close>

definition new_dsl_line :: dsl_line where
  "new_dsl_line = \<lparr>l_nth = 1, l_raw = [], l_type = None, l_name = [],
     l_struct_id = None, l_value = None, l_is_node = False, l_is_node_end = False,
     l_skip = False\<rparr>"

definition normalize_magic_tag :: "string \<Rightarrow> string" where
  "normalize_magic_tag v = ljust 4 (take 4 v)"

definition unescape_escaped_string :: "string \<Rightarrow> string" where
  "unescape_escaped_string v =
     rstrip
       (replace [CHR 0x5C, CHR ''n''] [CHR 0x0A]
         (replace [CHR 0x5C, CHR ''t''] [CHR 0x09]
           (replace [CHR 0x5C, CHR 0x22] [CHR 0x22]
             (replace [CHR 0x5C, CHR ''r'', CHR 0x5C, CHR ''n''] [CHR 0x5C, CHR ''n''] v))))"

definition unquote_quoted_string :: "string \<Rightarrow> string" where
  "unquote_quoted_string v = strip_char (CHR 0x22) v"

text \<open>\<open>get_unprettified_sentinel\<close> of \<open>load_ndugff\<close>, on the text of the number.\<close>

definition get_unprettified_sentinel :: "string \<Rightarrow> string" where
  "get_unprettified_sentinel arg_value =
     (if arg_value = str_int PRETTY_SENTINEL then str_int GFF_UINT32_SENTINEL else arg_value)"

text \<open>
  \<open>build_dsl_line\<close>. It starts from the line object as the loop left it and never
  clears a flag itself. \<open>leaf_value\<close> is its block \<open>if type(dsl_line.value) is str\<close>,
  which every value of a matched line enters.
\<close>

definition leaf_value :: "string \<Rightarrow> string \<Rightarrow> exn + string" where
  "leaf_value ty v0 =
     (let v = unquote_quoted_string v0 in
      (case (if CHR 0x5C \<in> set v then
               (if ty \<in> ESCAPED_STRING_TYPES then Inr (unescape_escaped_string v)
                else if ty \<in> LITERAL_STRING_TYPES then Inl (ValueError BackslashInLiteralString)
                else Inl (ValueError BackslashInValue))
             else Inr v) of
         Inl e \<Rightarrow> Inl e
       | Inr v1 \<Rightarrow>
           (let v2 = (if ty = ''gff.MagicTag'' then normalize_magic_tag v1 else v1);
                v3 = (if ty = ''gff.Dword'' then get_unprettified_sentinel v2 else v2)
            in Inr v3)))"

definition build_dsl_line :: "dsl_line \<Rightarrow> string \<Rightarrow> exn + dsl_line" where
  "build_dsl_line l arg_line =
     (if arg_line = [] \<or> prefix ''#'' arg_line then Inr (l\<lparr>l_skip := True\<rparr>)
      else if arg_line = ''end()'' then Inr (l\<lparr>l_is_node_end := True\<rparr>)
      else
        (case DSL_TOKENIZER arg_line of
           None \<Rightarrow> Inl (ValueError NoMatch)
         | Some tk \<Rightarrow>
             (let l1 = l\<lparr>l_raw := arg_line, l_type := Some (t_type tk), l_name := t_name tk,
                         l_struct_id := t_struct_id tk, l_value := t_value tk\<rparr>
              in if t_type tk = [] then Inl (ValueError NoType)
                 else if t_type tk \<in> NODE_TYPES then
                   (if t_type tk = ''gff.Struct'' then
                      (case t_struct_id tk of
                         None \<Rightarrow> Inl (ValueError MissingId)
                       | Some sid \<Rightarrow>
                           Inr (l1\<lparr>l_is_node := True,
                                    l_struct_id := Some (get_unprettified_sentinel sid)\<rparr>))
                    else Inr (l1\<lparr>l_is_node := True\<rparr>))
                 else if t_name tk = [] then Inl (ValueError MissingName)
                 else
                   (case t_value tk of
                      None \<Rightarrow> Inl (ValueError MissingValue)
                    | Some v0 \<Rightarrow>
                        (case leaf_value (t_type tk) v0 of
                           Inl e \<Rightarrow> Inl e
                         | Inr v \<Rightarrow> Inr (l1\<lparr>l_value := Some v\<rparr>))))))"

subsection \<open>One field\<close>

text \<open>
  \<open>float(s)\<close> is a parameter \<open>F\<close> of the reader: the \<open>repr\<close> of the float that the
  text \<open>s\<close> denotes, or \<open>None\<close> for its \<open>ValueError\<close>.
\<close>

type_synonym py_float = "string \<Rightarrow> string option"

text \<open>
  The parameter at the concrete inputs below, none of which has a field of a float
  type: there \<open>float\<close> is never called.
\<close>

definition no_float :: py_float where
  "no_float s = None"

text \<open>\<open>constructor()\<close> without an argument.\<close>

fun construct_empty :: "py_type \<Rightarrow> ndugff_value" where
  "construct_empty PyInt = VInt 0"
| "construct_empty PyFloat = VFloat ''0.0''"
| "construct_empty PyStr = VStr []"
| "construct_empty PyDict = VDict []"
| "construct_empty PyList = VList []"

text \<open>
  \<open>constructor(dsl_line.value)\<close> inside \<open>try ... except (ValueError, TypeError)\<close>.
  \<open>dict(s)\<close> of a text raises unless the text is empty, and \<open>list(s)\<close> is the list of
  its characters.
\<close>

fun construct :: "py_float \<Rightarrow> py_type \<Rightarrow> string option \<Rightarrow> exn + ndugff_value" where
  "construct F PyStr None = Inr (VStr ''None'')"
| "construct F ty None = Inl (ValueError CouldNotConvertValue)"
| "construct F PyInt (Some v) =
     (case py_int v of None \<Rightarrow> Inl (ValueError CouldNotConvertValue) | Some i \<Rightarrow> Inr (VInt i))"
| "construct F PyFloat (Some v) =
     (case F v of None \<Rightarrow> Inl (ValueError CouldNotConvertValue) | Some r \<Rightarrow> Inr (VFloat r))"
| "construct F PyStr (Some v) = Inr (VStr v)"
| "construct F PyDict (Some v) =
     (if v = [] then Inr (VDict []) else Inl (ValueError CouldNotConvertValue))"
| "construct F PyList (Some v) = Inr (VList (map (\<lambda>c. VStr [c]) v))"

text \<open>The object \<open>ndugff_field\<close> after \<open>build_ndugff_field\<close>.\<close>

record ndugff_field =
  f_key :: key
  f_value :: ndugff_value
  f_is_node :: bool

definition build_ndugff_field :: "py_float \<Rightarrow> dsl_line \<Rightarrow> exn + ndugff_field" where
  "build_ndugff_field F l =
     (case (if l_type l = Some ''gff.Struct'' then
              (case l_struct_id l of
                 None \<Rightarrow> Inl (ValueError CouldNotConvertId)
               | Some sid \<Rightarrow>
                   (case py_int sid of
                      None \<Rightarrow> Inl (ValueError CouldNotConvertId)
                    | Some i \<Rightarrow> Inr (Some i)))
            else Inr None) of
        Inl e \<Rightarrow> Inl e
      | Inr kid \<Rightarrow>
          (case l_type l of
             None \<Rightarrow> Inl (ValueError UnknownValueType)
           | Some ty \<Rightarrow>
               (case get_ndugff_value_type ty of
                  None \<Rightarrow> Inl (ValueError UnknownValueType)
                | Some ctor \<Rightarrow>
                    (case (if l_is_node l then Inr (construct_empty ctor)
                           else construct F ctor (l_value l)) of
                       Inl e \<Rightarrow> Inl e
                     | Inr v \<Rightarrow>
                         Inr \<lparr>f_key = \<lparr>k_type = ty, k_name = l_name l, k_id = kid\<rparr>,
                              f_value = v, f_is_node = l_is_node l\<rparr>))))"

subsection \<open>The loop over the lines\<close>

text \<open>
  The stack of \<open>build_ndugff_dict\<close>, its top first. Each entry is a dictionary with one
  item: the key of an open node, or the text \<open>root\<close> for the bottom entry (\<open>None\<close>
  here), and what the node holds so far.
\<close>

type_synonym stack = "(key option \<times> ndugff_value) list"

text \<open>
  \<open>parent.append(child)\<close> for a list, \<open>parent.update(child)\<close> otherwise; the method
  \<open>update\<close> exists on dictionaries only.
\<close>

fun attach :: "ndugff_value \<Rightarrow> key \<Rightarrow> ndugff_value \<Rightarrow> exn + ndugff_value" where
  "attach (VList es) k v = Inr (VList (es @ [VDict [(k, v)]]))"
| "attach (VDict kvs) k v = Inr (VDict (kvs @ [(k, v)]))"
| "attach parent k v = Inl AttributeError"

text \<open>
  One turn of \<open>for line in lines\<close>. The \<open>continue\<close> of a skipped line leaves the loop
  body before \<open>dsl_line.reset()\<close>, so the line object goes on as it is.
\<close>

definition step :: "py_float \<Rightarrow> dsl_line \<times> stack \<Rightarrow> string \<Rightarrow> exn + dsl_line \<times> stack" where
  "step F s line =
     (case build_dsl_line (fst s) line of
        Inl e \<Rightarrow> Inl e
      | Inr l \<Rightarrow>
          if l_skip l then Inr (l, snd s)
          else if l_is_node_end l then
            (case snd s of
               (Some k, child) # (pk, parent) # st \<Rightarrow>
                 (case attach parent k child of
                    Inl e \<Rightarrow> Inl e
                  | Inr parent' \<Rightarrow> Inr (reset l, (pk, parent') # st))
             | _ \<Rightarrow> Inl (ValueError UnexpectedEnd))
          else
            (case build_ndugff_field F l of
               Inl e \<Rightarrow> Inl e
             | Inr fld \<Rightarrow>
                 if f_is_node fld then Inr (reset l, (Some (f_key fld), f_value fld) # snd s)
                 else
                   (case snd s of
                      (pk, VDict kvs) # st \<Rightarrow>
                        Inr (reset l, (pk, VDict (kvs @ [(f_key fld, f_value fld)])) # st)
                    | _ \<Rightarrow> Inl (ValueError NotUnderStruct))))"

fun run_lines :: "py_float \<Rightarrow> dsl_line \<times> stack \<Rightarrow> string list \<Rightarrow> exn + dsl_line \<times> stack" where
  "run_lines F s [] = Inr s"
| "run_lines F s (line # lines) =
     (case step F s line of Inl e \<Rightarrow> Inl e | Inr s' \<Rightarrow> run_lines F s' lines)"

subsection \<open>Canonical order\<close>

text \<open>\<open>xs.index(x)\<close>; \<open>None\<close> is its \<open>ValueError\<close>.\<close>

fun index_of :: "'a list \<Rightarrow> 'a \<Rightarrow> nat option" where
  "index_of [] x = None"
| "index_of (y # ys) x = (if x = y then Some 0 else map_option Suc (index_of ys x))"

text \<open>\<open>sort_key\<close> of \<open>_Dict.reorder\<close>, with \<open>arg_field_types\<close> the registry.\<close>

definition sort_key_of :: "key \<Rightarrow> (nat \<times> string) option" where
  "sort_key_of arg_key =
     map_option (\<lambda>type_index. (type_index, lower (k_name arg_key)))
       (index_of (map fst FIELD_TYPES) (k_type arg_key))"

text \<open>
  \<open>sorted(arg_node.items(), key=lambda x: sort_key(x[0]))\<close>: the keys are computed for
  all items first, and the sort is stable.
\<close>

definition sorted_items :: "ndugff_dict \<Rightarrow> exn + ndugff_dict" where
  "sorted_items kvs =
     (if \<forall>kv \<in> set kvs. sort_key_of (fst kv) \<noteq> None
      then Inr (sort_key (\<lambda>kv. the (sort_key_of (fst kv))) kvs)
      else Inl (ValueError NotInList))"

text \<open>A function applied to the elements of a list in turn, up to the first exception.\<close>

fun map_result :: "('a \<Rightarrow> exn + 'b) \<Rightarrow> 'a list \<Rightarrow> exn + 'b list" where
  "map_result f [] = Inr []"
| "map_result f (x # xs) =
     (case f x of
        Inl e \<Rightarrow> Inl e
      | Inr y \<Rightarrow> (case map_result f xs of Inl e \<Rightarrow> Inl e | Inr ys \<Rightarrow> Inr (y # ys)))"

lemma map_result_cong [fundef_cong]:
  "xs = ys \<Longrightarrow> (\<And>x. x \<in> set ys \<Longrightarrow> f x = g x) \<Longrightarrow> map_result f xs = map_result g ys"
  by (induction ys arbitrary: xs) (auto split: sum.splits)

lemma set_sorted_items: "sorted_items kvs = Inr si \<Longrightarrow> set si = set kvs"
  by (auto simp: sorted_items_def split: if_splits)

lemma size_dict_member:
  "(k, v) \<in> set kvs \<Longrightarrow> size v < Suc (size_list (size_prod (\<lambda>_. 0) size) kvs)"
  by (induction kvs) auto

lemma size_list_member: "v \<in> set vs \<Longrightarrow> size v < Suc (size_list size vs)"
  by (induction vs) auto

function sort_recursive :: "ndugff_value \<Rightarrow> exn + ndugff_value" where
  "sort_recursive (VDict kvs) =
     (case sorted_items kvs of
        Inl e \<Rightarrow> Inl e
      | Inr si \<Rightarrow>
          (case map_result
                  (\<lambda>kv. case sort_recursive (snd kv) of
                          Inl e \<Rightarrow> Inl e
                        | Inr v \<Rightarrow> Inr (fst kv, v)) si of
             Inl e \<Rightarrow> Inl e
           | Inr r \<Rightarrow> Inr (VDict r)))"
| "sort_recursive (VList es) =
     (case map_result sort_recursive es of Inl e \<Rightarrow> Inl e | Inr r \<Rightarrow> Inr (VList r))"
| "sort_recursive (VInt i) = Inr (VInt i)"
| "sort_recursive (VFloat r) = Inr (VFloat r)"
| "sort_recursive (VStr t) = Inr (VStr t)"
  by pat_completeness auto
termination
proof (relation "measure size")
  show "wf (measure size)" by simp
next
  fix kvs si :: ndugff_dict and kv
  assume "sorted_items kvs = Inr si" and "kv \<in> set si"
  then have "kv \<in> set kvs" by (simp add: set_sorted_items)
  then have "size (snd kv) < Suc (size_list (size_prod (\<lambda>_. 0) size) kvs)"
    using size_dict_member [of "fst kv" "snd kv" kvs] by simp
  then show "(snd kv, VDict kvs) \<in> measure size" by simp
next
  fix es :: "ndugff_value list" and x
  assume "x \<in> set es"
  then show "(x, VList es) \<in> measure size"
    using size_list_member [of x es] by simp
qed

text \<open>\<open>_Dict.reorder\<close>: the result is a dictionary again.\<close>

definition reorder :: "ndugff_dict \<Rightarrow> exn + ndugff_dict" where
  "reorder d =
     (case sort_recursive (VDict d) of
        Inl e \<Rightarrow> Inl e
      | Inr (VDict r) \<Rightarrow> Inr r
      | Inr _ \<Rightarrow> Inl TypeError)"

subsection \<open>The file\<close>

text \<open>
  \<open>f.readlines()\<close> of a file opened in text mode: \<open>\r\n\<close> and \<open>\r\<close> end a line as
  \<open>\n\<close> does, and a text that ends with a line end has no further, empty line. The line
  ends themselves are left out, \<open>ln.strip()\<close> being applied to every line next.
\<close>

fun split_lines :: "string \<Rightarrow> string \<Rightarrow> string list" where
  "split_lines acc [] = (if acc = [] then [] else [rev acc])"
| "split_lines acc (c # cs) =
     (if c = CHR 0x0A then rev acc # split_lines [] cs else split_lines (c # acc) cs)"

definition readlines :: "string \<Rightarrow> string list" where
  "readlines text =
     split_lines [] (replace [CHR 0x0D] [CHR 0x0A] (replace [CHR 0x0D, CHR 0x0A] [CHR 0x0A] text))"

text \<open>
  \<open>build_ndugff_dict\<close>: the value it assigns to \<open>self._ndugff_dict\<close>. The bottom entry
  of the stack is the dictionary \<open>root\<close>; no entry above it is looked at when the lines
  are used up.
\<close>

definition root_of :: "stack \<Rightarrow> ndugff_dict" where
  "root_of st = (case snd (last st) of VDict kvs \<Rightarrow> kvs | _ \<Rightarrow> [])"

definition build_ndugff_dict :: "py_float \<Rightarrow> string \<Rightarrow> exn + ndugff_dict" where
  "build_ndugff_dict F text =
     (case run_lines F (new_dsl_line, [(None, VDict [])]) (map strip (readlines text)) of
        Inl e \<Rightarrow> Inl e
      | Inr s \<Rightarrow> reorder (root_of (snd s)))"

text \<open>
  The instance of \<open>_Gff._Single\<close>: its attribute \<open>_ndugff_dict\<close>, \<open>None\<close> until a load
  succeeds.
\<close>

record single =
  ndugff_dict :: "ndugff_dict option"

text \<open>
  \<open>load_ndugff\<close> on a path and the outcome of \<open>arg_input_fp.open\<close> and
  \<open>f.readlines()\<close> there: the text of the file, or the exception raised. The argument
  may be a \<open>str\<close>, which \<open>_is_file_of_type\<close> accepts and which has no method \<open>open\<close>:
  its outcome is \<open>AttributeError\<close>. A file that cannot be opened gives \<open>OSError\<close>, and
  one that is not UTF-8 the \<open>ValueError\<close> of the decoder. The file is opened inside
  \<open>try ... except ValueError\<close>, as the lines are processed. The result \<open>Inr\<close> is the
  instance that the method returns; \<open>Inl\<close> is an exception that leaves the method.
\<close>

definition load_ndugff :: "py_float \<Rightarrow> path \<Rightarrow> exn + string \<Rightarrow> single \<Rightarrow> exn + single" where
  "load_ndugff F arg_input_fp opened self =
     (if is_ndugff_file arg_input_fp False then
        (case (case opened of
                 Inl x \<Rightarrow> Inl x
               | Inr content \<Rightarrow> build_ndugff_dict F content) of
           Inl (ValueError m) \<Rightarrow> Inr self
         | Inl e \<Rightarrow> Inl e
         | Inr d \<Rightarrow> Inr (self\<lparr>ndugff_dict := Some d\<rparr>))
      else Inr self)"

section \<open>Writing the DSL\<close>

definition get_escaped_string :: "string \<Rightarrow> string" where
  "get_escaped_string v =
     replace [CHR 0x0A] [CHR 0x5C, CHR ''n'']
       (replace [CHR 0x0D, CHR 0x0A] [CHR 0x5C, CHR ''n'']
         (replace [CHR 0x09] [CHR 0x5C, CHR ''t'']
           (replace [CHR 0x22] [CHR 0x5C, CHR 0x22] v)))"

definition get_pretty_sentinel :: "int \<Rightarrow> int" where
  "get_pretty_sentinel arg_value =
     (if arg_value = GFF_UINT32_SENTINEL then PRETTY_SENTINEL else arg_value)"

text \<open>
  \<open>get_indent(arg_depth)\<close> is \<open>" " * int(4 * arg_depth)\<close>, and \<open>end_node\<close> calls it at
  \<open>arg_depth + 0.5\<close>: the argument here is twice the depth.
\<close>

definition get_indent :: "nat \<Rightarrow> string" where
  "get_indent arg_depth2 = replicate (2 * arg_depth2) CHR '' ''"

text \<open>A key without an id prints \<open>None\<close> for it.\<close>

definition get_formatted_key :: "key \<Rightarrow> string" where
  "get_formatted_key k =
     (if k_type k = ''gff.Struct''
      then k_type k @ ''('' @ k_name k @ '')'' @ ''.id('' @
           (case k_id k of None \<Rightarrow> ''None'' | Some i \<Rightarrow> str_int (get_pretty_sentinel i)) @ '')''
      else k_type k @ ''('' @ k_name k @ '')'')"

text \<open>
  \<open>get_formatted_value\<close>. Each loader builds the value of a field with the constructor
  of the type of its key. The result is \<open>None\<close> for a value of another type, where the
  source raises \<open>AttributeError\<close> or prints a text that depends on the addresses of
  objects.
\<close>

definition get_formatted_value :: "key \<Rightarrow> ndugff_value \<Rightarrow> string option" where
  "get_formatted_value k val =
     (let v = (if k_type k \<in> ESCAPED_STRING_TYPES then
                 (case val of VStr t \<Rightarrow> Some (get_escaped_string t) | _ \<Rightarrow> None)
               else if k_type k = ''gff.Dword'' then
                 (case val of VInt i \<Rightarrow> Some (str_int (get_pretty_sentinel i)) | _ \<Rightarrow> None)
               else
                 (case val of
                    VInt i \<Rightarrow> Some (str_int i)
                  | VFloat r \<Rightarrow> Some r
                  | VStr t \<Rightarrow> Some t
                  | _ \<Rightarrow> None))
      in map_option
           (\<lambda>t. if k_type k \<in> ESCAPED_STRING_TYPES \<union> LITERAL_STRING_TYPES
                then '': '' @ [CHR 0x22] @ t @ [CHR 0x22] else '': '' @ t) v)"

definition end_node :: "nat \<Rightarrow> string" where
  "end_node arg_depth = get_indent (2 * arg_depth + 1) @ ''end()''"

definition dump_field_line :: "key \<Rightarrow> ndugff_value \<Rightarrow> nat \<Rightarrow> string option" where
  "dump_field_line k val arg_depth =
     (if k_type k \<notin> NODE_TYPES
      then map_option (\<lambda>t. get_indent (2 * arg_depth) @ get_formatted_key k @ t)
             (get_formatted_value k val)
      else Some (get_indent (2 * arg_depth) @ get_formatted_key k))"

text \<open>
  \<open>dump_dict_lines\<close>: the lines it appends to \<open>dsl_lines\<close>. \<open>dump_list_lines\<close> is its
  loop \<open>for v in ndugff_value\<close> over the elements of a list, which are dictionaries.
\<close>

fun dump_dict_lines :: "ndugff_dict \<Rightarrow> nat \<Rightarrow> string list option"
  and dump_list_lines :: "ndugff_value list \<Rightarrow> nat \<Rightarrow> string list option"
  and dump_children :: "ndugff_value \<Rightarrow> nat \<Rightarrow> string list option" where
  "dump_dict_lines [] arg_depth = Some []"
| "dump_dict_lines (kv # kvs) arg_depth =
     (case dump_field_line (fst kv) (snd kv) arg_depth of
        None \<Rightarrow> None
      | Some field_line \<Rightarrow>
          (case dump_children (snd kv) arg_depth of
             None \<Rightarrow> None
           | Some body \<Rightarrow>
               (case dump_dict_lines kvs arg_depth of
                  None \<Rightarrow> None
                | Some rest \<Rightarrow> Some (field_line # body @ rest))))"
| "dump_list_lines [] arg_depth = Some []"
| "dump_list_lines (v # vs) arg_depth =
     (case v of
        VDict d \<Rightarrow>
          (case dump_dict_lines d arg_depth of
             None \<Rightarrow> None
           | Some ls \<Rightarrow>
               (case dump_list_lines vs arg_depth of
                  None \<Rightarrow> None
                | Some rest \<Rightarrow> Some (ls @ rest)))
      | _ \<Rightarrow> None)"
| "dump_children (VDict d) arg_depth =
     map_option (\<lambda>ls. ls @ [end_node arg_depth]) (dump_dict_lines d (arg_depth + 1))"
| "dump_children (VList vs) arg_depth =
     map_option (\<lambda>ls. ls @ [end_node arg_depth]) (dump_list_lines vs (arg_depth + 1))"
| "dump_children (VInt i) arg_depth = Some []"
| "dump_children (VFloat r) arg_depth = Some []"
| "dump_children (VStr t) arg_depth = Some []"

text \<open>
  \<open>write_ndugff\<close>: the instance it returns and the text it writes to the file, if it
  writes one. The outer \<open>None\<close> is the one of \<open>get_formatted_value\<close>.
\<close>

definition write_ndugff :: "path \<Rightarrow> single \<Rightarrow> (single \<times> string option) option" where
  "write_ndugff arg_output_fp self =
     (case ndugff_dict self of
        None \<Rightarrow> Some (self, None)
      | Some d \<Rightarrow>
          if is_ndugff_file arg_output_fp True \<and> d \<noteq> [] then
            (case dump_dict_lines d 0 of
               None \<Rightarrow> None
             | Some dsl_lines \<Rightarrow> Some (self, Some (join [CHR 0x0A] dsl_lines)))
          else Some (self, None))"

section \<open>Reading JSON\<close>

text \<open>
  What \<open>json.load\<close> returns. \<open>JNull\<close> is Python's \<open>None\<close>, an object is a \<open>dict\<close>
  with its keys in order, and a float is held by its \<open>repr\<close>.
\<close>

datatype json =
    JNull
  | JBool bool
  | JInt int
  | JFloat string
  | JStr string
  | JArr "json list"
  | JObj "(string \<times> json) list"

text \<open>\<open>d.get(k)\<close>, \<open>d.get(k, default)\<close>, \<open>d.pop(k, None)\<close> (what is left) and \<open>d[k] = v\<close>.\<close>

definition jget :: "(string \<times> json) list \<Rightarrow> string \<Rightarrow> json" where
  "jget d k = (case map_of d k of None \<Rightarrow> JNull | Some v \<Rightarrow> v)"

definition jget_default :: "(string \<times> json) list \<Rightarrow> string \<Rightarrow> json \<Rightarrow> json" where
  "jget_default d k dflt = (case map_of d k of None \<Rightarrow> dflt | Some v \<Rightarrow> v)"

definition jpop :: "(string \<times> json) list \<Rightarrow> string \<Rightarrow> (string \<times> json) list" where
  "jpop d k = filter (\<lambda>kv. fst kv \<noteq> k) d"

fun jset :: "(string \<times> json) list \<Rightarrow> string \<Rightarrow> json \<Rightarrow> (string \<times> json) list" where
  "jset [] k v = [(k, v)]"
| "jset (kv # d) k v = (if fst kv = k then (k, v) # d else kv # jset d k v)"

text \<open>The truth value of an object in \<open>if not node_type\<close>.\<close>

fun truthy :: "json \<Rightarrow> bool" where
  "truthy JNull = False"
| "truthy (JBool b) = b"
| "truthy (JInt i) = (i \<noteq> 0)"
| "truthy (JFloat r) = (r \<noteq> ''0.0'' \<and> r \<noteq> ''-0.0'')"
| "truthy (JStr t) = (t \<noteq> [])"
| "truthy (JArr es) = (es \<noteq> [])"
| "truthy (JObj d) = (d \<noteq> [])"

text \<open>The measure by which \<open>get_normalized_json_struct\<close> terminates.\<close>

fun jweight :: "json \<Rightarrow> nat" where
  "jweight (JArr es) = Suc (sum_list (map (\<lambda>e. jweight e + 10) es))"
| "jweight (JObj d) = Suc (sum_list (map (\<lambda>kv. Suc (jweight (snd kv))) d))"
| "jweight j = 0"

lemma jweight_elem: "e \<in> set es \<Longrightarrow> jweight e + 10 < jweight (JArr es)"
  by (induction es) auto

lemma jweight_entry: "kv \<in> set d \<Longrightarrow> jweight (snd kv) < jweight (JObj d)"
  by (induction d) auto

lemma jweight_pop: "jweight (JObj (jpop d k)) + jweight (jget d k) \<le> jweight (JObj d)"
  by (induction d) (auto simp: jpop_def jget_def)

lemma jweight_pop_le: "jweight (JObj (jpop d k)) \<le> jweight (JObj d)"
  using jweight_pop [of d k] by simp

lemma jget_entry: "jget d k \<noteq> JNull \<Longrightarrow> (k, jget d k) \<in> set d"
  by (auto simp: jget_def split: option.splits dest: map_of_SomeD)

text \<open>
  \<open>get_normalized_json_struct\<close> with \<open>is_root=False\<close>. The source changes \<open>arg_node\<close> in
  place and returns it; an argument that is no \<open>dict\<close> has no method \<open>get\<close>.
\<close>

function get_normalized_json_struct :: "json \<Rightarrow> exn + json" where
  "get_normalized_json_struct (JObj arg_node) =
     (let node_type = jget arg_node ''type'' in
      if \<not> truthy node_type then Inl (ValueError FieldTypeNotFound)
      else
        (let node_value = (if node_type = JStr ''void'' then jget arg_node ''value64''
                           else jget arg_node ''value'') in
         if node_value = JNull then Inl (ValueError FieldValueNotFound)
         else if node_type = JStr ''list'' then
           (case node_value of
              JArr es \<Rightarrow>
                (case map_result
                        (\<lambda>e. case e of
                                JObj ed \<Rightarrow>
                                  (let struct_id = jget ed ''__struct_id'' in
                                   if struct_id = JNull
                                   then Inl (ValueError ListStructMissingId)
                                   else
                                     (case get_normalized_json_struct
                                             (JObj [(''type'', JStr ''struct''),
                                                    (''__struct_id'', struct_id),
                                                    (''value'', JObj (jpop ed ''__struct_id''))]) of
                                        Inl x \<Rightarrow> Inl x
                                      | Inr n \<Rightarrow> Inr (JObj [([], n)])))
                              | _ \<Rightarrow> Inl (ValueError ListChildNotStruct)) es of
                   Inl x \<Rightarrow> Inl x
                 | Inr new_list \<Rightarrow> Inr (JObj (jset arg_node ''value'' (JArr new_list))))
            | _ \<Rightarrow> Inl (ValueError ListValueNotList))
         else if node_type = JStr ''struct'' then
           (case node_value of
              JObj vd \<Rightarrow>
                (case map_result
                        (\<lambda>kv. case get_normalized_json_struct (snd kv) of
                                Inl x \<Rightarrow> Inl x
                              | Inr n \<Rightarrow> Inr (fst kv, n)) (jpop vd ''__struct_id'') of
                   Inl x \<Rightarrow> Inl x
                 | Inr new_dict \<Rightarrow> Inr (JObj (jset arg_node ''value'' (JObj new_dict))))
            | _ \<Rightarrow> Inl (ValueError StructValueNotDict))
         else Inr (JObj arg_node)))"
| "get_normalized_json_struct JNull = Inl AttributeError"
| "get_normalized_json_struct (JBool b) = Inl AttributeError"
| "get_normalized_json_struct (JInt i) = Inl AttributeError"
| "get_normalized_json_struct (JFloat r) = Inl AttributeError"
| "get_normalized_json_struct (JStr t) = Inl AttributeError"
| "get_normalized_json_struct (JArr es) = Inl AttributeError"
  by pat_completeness auto
termination
proof (relation "measure jweight")
  show "wf (measure jweight)" by simp
next
  fix arg_node :: "(string \<times> json) list" and node_type node_value es e ed struct_id
  assume nv: "node_value = (if node_type = JStr ''void'' then jget arg_node ''value64''
                            else jget arg_node ''value'')"
    and nn: "node_value \<noteq> JNull" and lst: "node_type = JStr ''list''"
    and arr: "node_value = JArr es" and mem: "e \<in> set es" and obj: "e = JObj ed"
    and sid: "struct_id = jget ed ''__struct_id''"
  from nv lst arr have "jget arg_node ''value'' = JArr es" by simp
  then have "(''value'', JArr es) \<in> set arg_node"
    using jget_entry [of arg_node "''value''"] by simp
  then have "jweight (JArr es) < jweight (JObj arg_node)"
    using jweight_entry [of "(''value'', JArr es)" arg_node] by simp
  moreover have "jweight (JObj ed) + 10 < jweight (JArr es)"
    using jweight_elem [OF mem] obj by simp
  moreover have "jweight (JObj (jpop ed ''__struct_id'')) + jweight struct_id \<le> jweight (JObj ed)"
    using jweight_pop [of ed "''__struct_id''"] sid by simp
  ultimately show
    "(JObj [(''type'', JStr ''struct''), (''__struct_id'', struct_id),
            (''value'', JObj (jpop ed ''__struct_id''))], JObj arg_node) \<in> measure jweight"
    by simp
next
  fix arg_node :: "(string \<times> json) list" and node_type node_value vd kv
  assume nv: "node_value = (if node_type = JStr ''void'' then jget arg_node ''value64''
                            else jget arg_node ''value'')"
    and nn: "node_value \<noteq> JNull" and nl: "node_type \<noteq> JStr ''list''"
    and st: "node_type = JStr ''struct''"
    and obj: "node_value = JObj vd" and mem: "kv \<in> set (jpop vd ''__struct_id'')"
  from nv st obj have "jget arg_node ''value'' = JObj vd" by simp
  then have "(''value'', JObj vd) \<in> set arg_node"
    using jget_entry [of arg_node "''value''"] by simp
  then have "jweight (JObj vd) < jweight (JObj arg_node)"
    using jweight_entry [of "(''value'', JObj vd)" arg_node] by simp
  moreover from mem have "kv \<in> set vd" by (simp add: jpop_def)
  then have "jweight (snd kv) < jweight (JObj vd)" by (rule jweight_entry)
  ultimately show "(snd kv, JObj arg_node) \<in> measure jweight" by simp
qed

text \<open>
  \<open>get_normalized_json_struct\<close> with \<open>is_root=True\<close>, on the value that \<open>json.load\<close>
  has returned. \<open>pop\<close> with two arguments is a method of \<open>dict\<close>; a list has \<open>pop\<close>
  with one argument only.
\<close>

definition get_normalized_json_root :: "json \<Rightarrow> exn + json" where
  "get_normalized_json_root raw_dict =
     (case raw_dict of
        JObj arg_node \<Rightarrow>
          (let gff_type = jget arg_node ''__data_type'' in
           if gff_type = JNull then Inl (ValueError MissingDataType)
           else
             (case get_normalized_json_struct
                     (JObj [(''type'', JStr ''struct''),
                            (''__struct_id'', JInt GFF_UINT32_SENTINEL),
                            (''value'', JObj (jpop arg_node ''__data_type''))]) of
                Inl x \<Rightarrow> Inl x
              | Inr root \<Rightarrow>
                  Inr (JObj [(''__type__'', JObj [(''type'', JStr ''__data_type''),
                                                  (''value'', gff_type)]),
                             (''__root__'', root)])))
      | JArr es \<Rightarrow> Inl TypeError
      | _ \<Rightarrow> Inl AttributeError)"

definition LANGUAGES :: "(int \<times> string) list" where
  "LANGUAGES =
    [(0, ''ENGLISH''), (1, ''ENGLISH_F''), (2, ''FRENCH''), (3, ''FRENCH_F''),
     (4, ''GERMAN''), (5, ''GERMAN_F''), (6, ''ITALIAN''), (7, ''ITALIAN_F''),
     (8, ''SPANISH''), (9, ''SPANISH_F''), (10, ''POLISH''), (11, ''POLISH_F'')]"

text \<open>\<open>get_dsl_type\<close> of \<open>load_json\<close>; the entry of \<open>gff.Language\<close> has the name \<open>None\<close>.\<close>

definition json_type_matches :: "json \<Rightarrow> string option \<Rightarrow> bool" where
  "json_type_matches j n =
     (case n of None \<Rightarrow> j = JNull | Some t \<Rightarrow> j = JStr t)"

definition get_dsl_type :: "json \<Rightarrow> exn + string" where
  "get_dsl_type arg_json_type =
     (case find (\<lambda>kv. json_type_matches arg_json_type (json_type_name (snd kv))) FIELD_TYPES of
        None \<Rightarrow> Inl (ValueError UnknownJsonType)
      | Some kv \<Rightarrow> Inr (dsl_type_name (snd kv)))"

text \<open>
  \<open>get_ndugff_language_name\<close>: \<open>int(arg_json_id)\<close> is computed inside the loop and its
  \<open>ValueError\<close> is not the one of \<open>log_and_raise\<close>. The keys of an object are texts.
\<close>

definition get_ndugff_language_name :: "string \<Rightarrow> exn + string" where
  "get_ndugff_language_name arg_json_id =
     (case py_int arg_json_id of
        None \<Rightarrow> Inl (ValueError InvalidLiteralForInt)
      | Some i \<Rightarrow>
          (case map_of LANGUAGES i of
             None \<Rightarrow> Inl (ValueError UnknownLanguageId)
           | Some v \<Rightarrow> Inr v))"

text \<open>
  \<open>get_unprettified_sentinel\<close> of \<open>load_json\<close>: \<open>arg_value == -1\<close> holds for the integer
  and for the float of that value.
\<close>

definition get_unprettified_sentinel_json :: "json \<Rightarrow> json" where
  "get_unprettified_sentinel_json arg_value =
     (if arg_value = JInt PRETTY_SENTINEL \<or> arg_value = JFloat ''-1.0''
      then JInt GFF_UINT32_SENTINEL else arg_value)"

text \<open>
  \<open>int(x)\<close> of a float is a parameter \<open>T\<close> of the JSON reader: the integer, a
  \<open>ValueError\<close> for a NaN or an \<open>OverflowError\<close> for an infinity.
\<close>

type_synonym py_trunc = "string \<Rightarrow> exn + int"

text \<open>
  \<open>value_converter(v)\<close> inside \<open>try ... except (ValueError, TypeError)\<close>, for the
  converter \<open>int\<close>: the only one that meets a value of another type than its own.
\<close>

fun convert_int :: "py_trunc \<Rightarrow> json \<Rightarrow> exn + ndugff_value" where
  "convert_int T (JInt i) = Inr (VInt i)"
| "convert_int T (JBool b) = Inr (VInt (if b then 1 else 0))"
| "convert_int T (JStr t) =
     (case py_int t of None \<Rightarrow> Inl (ValueError CouldNotConvertValue) | Some i \<Rightarrow> Inr (VInt i))"
| "convert_int T (JFloat r) =
     (case T r of
        Inr i \<Rightarrow> Inr (VInt i)
      | Inl (ValueError m) \<Rightarrow> Inl (ValueError CouldNotConvertValue)
      | Inl TypeError \<Rightarrow> Inl (ValueError CouldNotConvertValue)
      | Inl x \<Rightarrow> Inl x)"
| "convert_int T j = Inl (ValueError CouldNotConvertValue)"

text \<open>
  \<open>get_ndugff_value\<close> of \<open>load_json\<close>. It is called on a value that \<open>validate_types\<close>
  has accepted, and with the types \<open>gff.Dword\<close> and \<open>gff.Language\<close> on values of any
  type. A value without the method \<open>replace\<close> raises \<open>AttributeError\<close>; the membership
  test on a value that holds nothing raises \<open>TypeError\<close>.
\<close>

definition get_ndugff_value :: "py_trunc \<Rightarrow> string \<Rightarrow> json \<Rightarrow> exn + ndugff_value" where
  "get_ndugff_value T arg_dsl_type arg_json_value =
     (if arg_dsl_type \<in> LITERAL_STRING_TYPES
         \<and> (case arg_json_value of JStr t \<Rightarrow> False | JArr es \<Rightarrow> False | JObj d \<Rightarrow> False
                                   | _ \<Rightarrow> True)
      then Inl TypeError
      else if arg_dsl_type \<in> LITERAL_STRING_TYPES
         \<and> (case arg_json_value of
               JStr t \<Rightarrow> CHR 0x5C \<in> set t
             | JArr es \<Rightarrow> JStr [CHR 0x5C] \<in> set es
             | JObj d \<Rightarrow> [CHR 0x5C] \<in> fst ` set d
             | _ \<Rightarrow> False)
      then Inl (ValueError BackslashInLiteralString)
      else
        (case (if arg_dsl_type \<in> ESCAPED_STRING_TYPES then
                 (case arg_json_value of
                    JStr t \<Rightarrow>
                      Inr (JStr (rstrip (replace [CHR 0x5C, CHR ''r'', CHR 0x5C, CHR ''n'']
                                           [CHR 0x5C, CHR ''n''] t)))
                  | _ \<Rightarrow> Inl AttributeError)
               else if arg_dsl_type = ''gff.Dword''
               then Inr (get_unprettified_sentinel_json arg_json_value)
               else Inr arg_json_value) of
           Inl x \<Rightarrow> Inl x
         | Inr v \<Rightarrow>
             (case get_ndugff_value_type arg_dsl_type of
                None \<Rightarrow> Inl (ValueError UnknownDslType)
              | Some PyInt \<Rightarrow> convert_int T v
              | Some PyFloat \<Rightarrow>
                  (case v of JFloat r \<Rightarrow> Inr (VFloat r) | _ \<Rightarrow> Inl (ValueError NotOfExpectedType))
              | Some PyStr \<Rightarrow>
                  (case v of JStr t \<Rightarrow> Inr (VStr t) | _ \<Rightarrow> Inl (ValueError NotOfExpectedType))
              | Some _ \<Rightarrow> Inl (ValueError NotOfExpectedType))))"

text \<open>\<open>validate_types\<close>: \<open>type(arg_json_value) is expected_type\<close>.\<close>

fun has_type :: "py_type \<Rightarrow> json \<Rightarrow> bool" where
  "has_type PyInt (JInt i) = True"
| "has_type PyFloat (JFloat r) = True"
| "has_type PyStr (JStr t) = True"
| "has_type PyDict (JObj d) = True"
| "has_type PyList (JArr es) = True"
| "has_type ty j = False"

definition validate_types :: "string \<Rightarrow> json \<Rightarrow> exn + bool" where
  "validate_types arg_dsl_type arg_json_value =
     (case get_ndugff_value_type arg_dsl_type of
        None \<Rightarrow> Inl (ValueError UnknownDslType)
      | Some expected_type \<Rightarrow>
          if has_type expected_type arg_json_value then Inr True
          else Inl (ValueError NotOfExpectedType))"

text \<open>\<open>get_ndugff_key\<close> of \<open>load_json\<close>; \<open>arg_field\<close> is the object of the field.\<close>

definition get_ndugff_key :: "py_trunc \<Rightarrow> string \<Rightarrow> string \<Rightarrow> json \<Rightarrow> exn + key" where
  "get_ndugff_key T arg_dsl_type arg_name arg_field =
     (case arg_field of
        JObj fd \<Rightarrow>
          if arg_dsl_type = ''gff.Struct'' then
            (case get_ndugff_value T ''gff.Dword''
                    (jget_default fd ''__struct_id'' (JInt GFF_UINT32_SENTINEL)) of
               Inl x \<Rightarrow> Inl x
             | Inr (VInt i) \<Rightarrow> Inr \<lparr>k_type = arg_dsl_type, k_name = arg_name, k_id = Some i\<rparr>
             | Inr _ \<Rightarrow> Inl TypeError)
          else Inr \<lparr>k_type = arg_dsl_type, k_name = arg_name, k_id = None\<rparr>
      | _ \<Rightarrow> Inr \<lparr>k_type = arg_dsl_type, k_name = arg_name, k_id = None\<rparr>)"

text \<open>\<open>get_ndugff_cexolocstring\<close> of \<open>load_json\<close>, on an object.\<close>

definition get_ndugff_cexolocstring ::
  "py_trunc \<Rightarrow> (string \<times> json) list \<Rightarrow> exn + ndugff_dict" where
  "get_ndugff_cexolocstring T arg_json_value =
     (case get_ndugff_value T ''gff.Dword''
             (jget_default arg_json_value ''id'' (JInt GFF_UINT32_SENTINEL)) of
        Inl x \<Rightarrow> Inl x
      | Inr strref \<Rightarrow>
          (case map_result
                  (\<lambda>kv. case get_ndugff_language_name (fst kv) of
                          Inl x \<Rightarrow> Inl x
                        | Inr nm \<Rightarrow>
                            (case get_ndugff_value T ''gff.Language'' (snd kv) of
                               Inl x \<Rightarrow> Inl x
                             | Inr v \<Rightarrow>
                                 Inr (\<lparr>k_type = ''gff.Language'', k_name = nm, k_id = None\<rparr>, v)))
                  (jpop arg_json_value ''id'') of
             Inl x \<Rightarrow> Inl x
           | Inr langs \<Rightarrow>
               Inr ((\<lparr>k_type = ''gff.Dword'', k_name = ''strref'', k_id = None\<rparr>, strref)
                    # langs)))"

text \<open>
  \<open>get_ndugff_dict\<close> of \<open>load_json\<close>. \<open>arg_json_dict.items()\<close> and \<open>json_field.get\<close>
  are methods of \<open>dict\<close>; the fields are converted in order, and so are the elements
  of a list.
\<close>

lemma validate_types_not_null: "validate_types ty JNull = Inr ok \<Longrightarrow> False"
  by (auto simp: validate_types_def split: option.splits if_splits)

function get_ndugff_dict :: "py_trunc \<Rightarrow> json \<Rightarrow> exn + ndugff_dict" where
  "get_ndugff_dict T (JObj arg_json_dict) =
     map_result
       (\<lambda>kv. case snd kv of
               JObj json_field \<Rightarrow>
                 (case get_dsl_type (jget json_field ''type'') of
                    Inl x \<Rightarrow> Inl x
                  | Inr dsl_type \<Rightarrow>
                      (let json_value = (if dsl_type = ''gff.Base64String''
                                         then jget json_field ''value64''
                                         else jget json_field ''value'') in
                       case validate_types dsl_type json_value of
                         Inl x \<Rightarrow> Inl x
                       | Inr ok \<Rightarrow>
                           (case (if dsl_type = ''gff.Struct'' then
                                    (case get_ndugff_dict T json_value of
                                       Inl x \<Rightarrow> Inl x
                                     | Inr d \<Rightarrow> Inr (VDict d))
                                  else if dsl_type = ''gff.CExoLocString'' then
                                    (case json_value of
                                       JObj ld \<Rightarrow>
                                         (case get_ndugff_cexolocstring T ld of
                                            Inl x \<Rightarrow> Inl x
                                          | Inr d \<Rightarrow> Inr (VDict d))
                                     | _ \<Rightarrow> Inl AttributeError)
                                  else if dsl_type = ''gff.List'' then
                                    (case json_value of
                                       JArr es \<Rightarrow>
                                         (case map_result
                                                 (\<lambda>c. case get_ndugff_dict T c of
                                                         Inl x \<Rightarrow> Inl x
                                                       | Inr d \<Rightarrow> Inr (VDict d)) es of
                                            Inl x \<Rightarrow> Inl x
                                          | Inr vs \<Rightarrow> Inr (VList vs))
                                     | _ \<Rightarrow> Inl TypeError)
                                  else get_ndugff_value T dsl_type json_value) of
                              Inl x \<Rightarrow> Inl x
                            | Inr ndugff_value \<Rightarrow>
                                (case get_ndugff_key T dsl_type (fst kv) (snd kv) of
                                   Inl x \<Rightarrow> Inl x
                                 | Inr ndugff_key \<Rightarrow> Inr (ndugff_key, ndugff_value)))))
             | _ \<Rightarrow> Inl AttributeError)
       arg_json_dict"
| "get_ndugff_dict T JNull = Inl AttributeError"
| "get_ndugff_dict T (JBool b) = Inl AttributeError"
| "get_ndugff_dict T (JInt i) = Inl AttributeError"
| "get_ndugff_dict T (JFloat r) = Inl AttributeError"
| "get_ndugff_dict T (JStr t) = Inl AttributeError"
| "get_ndugff_dict T (JArr es) = Inl AttributeError"
  by pat_completeness auto

termination
proof (relation "measure (\<lambda>(T, j). jweight j)")
  show "wf (measure (\<lambda>(T, j). jweight j))" by simp
next
  fix T :: py_trunc and arg_json_dict :: "(string \<times> json) list"
    and kv json_field dsl_type json_value ok
  assume mem: "kv \<in> set arg_json_dict" and fld: "snd kv = JObj json_field"
    and jv: "json_value = (if dsl_type = ''gff.Base64String'' then jget json_field ''value64''
                           else jget json_field ''value'')"
    and ok: "validate_types dsl_type json_value = Inr ok"
    and st: "dsl_type = ''gff.Struct''"
  from ok have nn: "json_value \<noteq> JNull" using validate_types_not_null by auto
  from jv st have eq: "json_value = jget json_field ''value''" by simp
  with nn have "(''value'', json_value) \<in> set json_field"
    using jget_entry [of json_field "''value''"] by simp
  then have "jweight json_value < jweight (JObj json_field)"
    using jweight_entry [of "(''value'', json_value)" json_field] by simp
  moreover have "jweight (JObj json_field) < jweight (JObj arg_json_dict)"
    using jweight_entry [OF mem] fld by simp
  ultimately show "((T, json_value), (T, JObj arg_json_dict)) \<in> measure (\<lambda>(T, j). jweight j)"
    by simp
next
  fix T :: py_trunc and arg_json_dict :: "(string \<times> json) list"
    and kv json_field dsl_type json_value ok es c
  assume mem: "kv \<in> set arg_json_dict" and fld: "snd kv = JObj json_field"
    and jv: "json_value = (if dsl_type = ''gff.Base64String'' then jget json_field ''value64''
                           else jget json_field ''value'')"
    and ls: "dsl_type = ''gff.List''" and arr: "json_value = JArr es" and c: "c \<in> set es"
  from jv ls arr have "jget json_field ''value'' = JArr es" by simp
  then have "(''value'', JArr es) \<in> set json_field"
    using jget_entry [of json_field "''value''"] by simp
  then have "jweight (JArr es) < jweight (JObj json_field)"
    using jweight_entry [of "(''value'', JArr es)" json_field] by simp
  moreover have "jweight (JObj json_field) < jweight (JObj arg_json_dict)"
    using jweight_entry [OF mem] fld by simp
  moreover have "jweight c < jweight (JArr es)" using jweight_elem [OF c] by simp
  ultimately show "((T, c), (T, JObj arg_json_dict)) \<in> measure (\<lambda>(T, j). jweight j)"
    by simp
qed

text \<open>
  \<open>load_json\<close> on a path and the outcome of \<open>arg_input_fp.open\<close> and \<open>json.load\<close>
  on the file there: a value, or the exception raised (the \<open>JSONDecodeError\<close> of a text
  that is not JSON is a \<open>ValueError\<close>; a \<open>str\<close> as the argument, which has no method
  \<open>open\<close>, gives \<open>AttributeError\<close>).
\<close>

definition load_json :: "py_trunc \<Rightarrow> path \<Rightarrow> exn + json \<Rightarrow> single \<Rightarrow> exn + single" where
  "load_json T arg_input_fp loaded self =
     (if is_json_file arg_input_fp False then
        (case (case loaded of
                 Inl x \<Rightarrow> Inl x
               | Inr raw_dict \<Rightarrow>
                   (case get_normalized_json_root raw_dict of
                      Inl x \<Rightarrow> Inl x
                    | Inr json_dict \<Rightarrow>
                        (case get_ndugff_dict T json_dict of
                           Inl x \<Rightarrow> Inl x
                         | Inr d \<Rightarrow> reorder d))) of
           Inl (ValueError m) \<Rightarrow> Inr self
         | Inl x \<Rightarrow> Inl x
         | Inr d \<Rightarrow> Inr (self\<lparr>ndugff_dict := Some d\<rparr>))
      else Inr self)"

text \<open>The parameter at concrete inputs without a float in the place of an integer.\<close>

definition no_trunc :: py_trunc where
  "no_trunc r = Inl (ValueError CouldNotConvertValue)"

section \<open>Reading binary GFF\<close>

text \<open>
  What \<open>gff.read\<close> of the library \<open>nwn\<close> returns is a tree of values of the library's
  types; the reading itself is outside the repository. A float is held by its \<open>repr\<close>,
  bytes are numbers below 256, a language is its pair \<open>lang\<close> and \<open>gender\<close>, and
  \<open>GffOther\<close> is a value of a type that the registry does not list.
\<close>

datatype gff_value =
    GffByte int
  | GffChar int
  | GffWord int
  | GffShort int
  | GffInt int
  | GffDword int
  | GffInt64 int
  | GffDword64 int
  | GffFloat string
  | GffDouble string
  | GffResRef string
  | GffCExoString string
  | GffCExoLocString int "((int \<times> int) \<times> string) list"
  | GffVOID "nat list"
  | GffStruct "int option" "(string \<times> gff_value) list"
  | GffList "gff_value list"
  | GffOther

text \<open>\<open>base64.b64encode(b).decode("ascii")\<close>.\<close>

definition b64_char :: "nat \<Rightarrow> char" where
  "b64_char n =
     (''ABCDEFGHIJKLMNOPQRSTUVWXYZabcdefghijklmnopqrstuvwxyz0123456789+/'') ! (n mod 64)"

fun b64encode :: "nat list \<Rightarrow> string" where
  "b64encode [] = []"
| "b64encode [a] =
     [b64_char (a div 4), b64_char ((a mod 4) * 16), CHR ''='', CHR ''='']"
| "b64encode [a, b] =
     [b64_char (a div 4), b64_char ((a mod 4) * 16 + b div 16),
      b64_char ((b mod 16) * 4), CHR ''='']"
| "b64encode (a # b # c # bs) =
     [b64_char (a div 4), b64_char ((a mod 4) * 16 + b div 16),
      b64_char ((b mod 16) * 4 + c div 64), b64_char (c mod 64)] @ b64encode bs"

text \<open>\<open>get_dsl_type\<close> of \<open>load_gff\<close>, on the type of the value.\<close>

fun gff_get_dsl_type :: "gff_value \<Rightarrow> exn + string" where
  "gff_get_dsl_type (GffByte i) = Inr ''gff.Byte''"
| "gff_get_dsl_type (GffChar i) = Inr ''gff.Char''"
| "gff_get_dsl_type (GffWord i) = Inr ''gff.Word''"
| "gff_get_dsl_type (GffShort i) = Inr ''gff.Short''"
| "gff_get_dsl_type (GffInt i) = Inr ''gff.Int''"
| "gff_get_dsl_type (GffDword i) = Inr ''gff.Dword''"
| "gff_get_dsl_type (GffInt64 i) = Inr ''gff.Int64''"
| "gff_get_dsl_type (GffDword64 i) = Inr ''gff.Dword64''"
| "gff_get_dsl_type (GffFloat r) = Inr ''gff.Float''"
| "gff_get_dsl_type (GffDouble r) = Inr ''gff.Double''"
| "gff_get_dsl_type (GffResRef t) = Inr ''gff.ResRef''"
| "gff_get_dsl_type (GffCExoString t) = Inr ''gff.CExoString''"
| "gff_get_dsl_type (GffCExoLocString strref entries) = Inr ''gff.CExoLocString''"
| "gff_get_dsl_type (GffVOID b) = Inr ''gff.Base64String''"
| "gff_get_dsl_type (GffStruct sid flds) = Inr ''gff.Struct''"
| "gff_get_dsl_type (GffList vs) = Inr ''gff.List''"
| "gff_get_dsl_type GffOther = Inl (ValueError UnknownValueType)"

text \<open>\<open>get_ndugff_language_name\<close> of \<open>load_gff\<close>.\<close>

definition gff_get_ndugff_language_name :: "int \<times> int \<Rightarrow> exn + string" where
  "gff_get_ndugff_language_name arg_gff_language =
     (case map_of LANGUAGES (fst arg_gff_language * 2 + snd arg_gff_language) of
        None \<Rightarrow> Inl (ValueError UnknownLanguageId)
      | Some v \<Rightarrow> Inr v)"

text \<open>\<open>get_ndugff_key\<close> of \<open>load_gff\<close>.\<close>

definition gff_get_ndugff_key :: "string \<Rightarrow> string \<Rightarrow> int option \<Rightarrow> key" where
  "gff_get_ndugff_key arg_dsl_type arg_name arg_id =
     \<lparr>k_type = arg_dsl_type, k_name = arg_name,
      k_id = (if arg_dsl_type = ''gff.Struct''
              then Some (case arg_id of None \<Rightarrow> GFF_UINT32_SENTINEL | Some i \<Rightarrow> i)
              else None)\<rparr>"

text \<open>
  The texts of the escaped string types as \<open>get_ndugff_value\<close> of \<open>load_gff\<close> stores
  them.
\<close>

definition gff_normalized_string :: "string \<Rightarrow> string" where
  "gff_normalized_string arg_gff_value =
     rstrip (replace [CHR 0x0D, CHR 0x0A] [CHR 0x0A] arg_gff_value)"

text \<open>
  \<open>get_ndugff_value\<close> of \<open>load_gff\<close>, on the values that are no nodes:
  \<open>ndugff_value_type(arg_gff_value)\<close>, after the cases of bytes and escaped strings.
\<close>

fun gff_get_ndugff_value :: "gff_value \<Rightarrow> exn + ndugff_value" where
  "gff_get_ndugff_value (GffByte i) = Inr (VInt i)"
| "gff_get_ndugff_value (GffChar i) = Inr (VInt i)"
| "gff_get_ndugff_value (GffWord i) = Inr (VInt i)"
| "gff_get_ndugff_value (GffShort i) = Inr (VInt i)"
| "gff_get_ndugff_value (GffInt i) = Inr (VInt i)"
| "gff_get_ndugff_value (GffDword i) = Inr (VInt i)"
| "gff_get_ndugff_value (GffInt64 i) = Inr (VInt i)"
| "gff_get_ndugff_value (GffDword64 i) = Inr (VInt i)"
| "gff_get_ndugff_value (GffFloat r) = Inr (VFloat r)"
| "gff_get_ndugff_value (GffDouble r) = Inr (VFloat r)"
| "gff_get_ndugff_value (GffResRef t) = Inr (VStr t)"
| "gff_get_ndugff_value (GffCExoString t) = Inr (VStr (gff_normalized_string t))"
| "gff_get_ndugff_value (GffVOID b) = Inr (VStr (b64encode b))"
| "gff_get_ndugff_value v = Inl TypeError"

text \<open>\<open>get_ndugff_cexolocstring\<close> of \<open>load_gff\<close>.\<close>

definition gff_get_ndugff_cexolocstring ::
  "int \<Rightarrow> ((int \<times> int) \<times> string) list \<Rightarrow> exn + ndugff_dict" where
  "gff_get_ndugff_cexolocstring strref languages =
     (case map_result
             (\<lambda>lt. case gff_get_ndugff_language_name (fst lt) of
                     Inl x \<Rightarrow> Inl x
                   | Inr nm \<Rightarrow>
                       Inr (gff_get_ndugff_key ''gff.Language'' nm None,
                            VStr (gff_normalized_string (snd lt))))
             languages of
        Inl x \<Rightarrow> Inl x
      | Inr langs \<Rightarrow>
          Inr ((gff_get_ndugff_key ''gff.Dword'' ''strref'' None, VInt strref) # langs))"

text \<open>
  \<open>get_ndugff_dict\<close> of \<open>load_gff\<close>, on the fields of a struct;
  \<open>gff_get_ndugff_field\<close> is the body of its loop. An element \<open>c\<close> of a list is
  converted as the struct with the single field \<open>{"": c}\<close>.
\<close>

fun gff_struct_id :: "gff_value \<Rightarrow> int option" where
  "gff_struct_id (GffStruct sid flds) = sid"
| "gff_struct_id v = None"

lemma size_gff_field:
  "(k, v) \<in> set flds \<Longrightarrow> size v < Suc (size_list (size_prod (\<lambda>_. 0) size) flds)"
  by (induction flds) auto

lemma size_gff_elem: "v \<in> set vs \<Longrightarrow> size v < Suc (size_list size vs)"
  by (induction vs) auto

function gff_get_ndugff_field :: "string \<Rightarrow> gff_value \<Rightarrow> exn + key \<times> ndugff_value" where
  "gff_get_ndugff_field field_name gff_value =
     (case gff_get_dsl_type gff_value of
        Inl x \<Rightarrow> Inl x
      | Inr dsl_type \<Rightarrow>
          (let ndugff_key = gff_get_ndugff_key dsl_type field_name (gff_struct_id gff_value) in
           case (case gff_value of
                   GffStruct sid flds \<Rightarrow>
                     (case map_result (\<lambda>kv. gff_get_ndugff_field (fst kv) (snd kv)) flds of
                        Inl x \<Rightarrow> Inl x
                      | Inr d \<Rightarrow> Inr (VDict d))
                 | GffList vs \<Rightarrow>
                     (case map_result
                             (\<lambda>c. case gff_get_ndugff_field [] c of
                                     Inl x \<Rightarrow> Inl x
                                   | Inr kv \<Rightarrow> Inr (VDict [kv])) vs of
                        Inl x \<Rightarrow> Inl x
                      | Inr es \<Rightarrow> Inr (VList es))
                 | GffCExoLocString strref entries \<Rightarrow>
                     (case gff_get_ndugff_cexolocstring strref entries of
                        Inl x \<Rightarrow> Inl x
                      | Inr d \<Rightarrow> Inr (VDict d))
                 | _ \<Rightarrow> gff_get_ndugff_value gff_value) of
             Inl x \<Rightarrow> Inl x
           | Inr ndugff_value \<Rightarrow> Inr (ndugff_key, ndugff_value)))"
  by pat_completeness auto
termination
proof (relation "measure (\<lambda>(n, v). size v)")
  show "wf (measure (\<lambda>(n, v). size v))" by simp
next
  fix field_name :: string and gff_value sid flds and kv :: "string \<times> gff_value"
  assume "gff_value = GffStruct sid flds" and "kv \<in> set flds"
  then show "((fst kv, snd kv), (field_name, gff_value)) \<in> measure (\<lambda>(n, v). size v)"
    using size_gff_field [of "fst kv" "snd kv" flds] by (simp add: case_prod_beta)
next
  fix field_name :: string and gff_value vs c
  assume "gff_value = GffList vs" and "c \<in> set vs"
  then show "(([], c), (field_name, gff_value)) \<in> measure (\<lambda>(n, v). size v)"
    using size_gff_elem [of c vs] by simp
qed

definition gff_get_ndugff_dict :: "(string \<times> gff_value) list \<Rightarrow> exn + ndugff_dict" where
  "gff_get_ndugff_dict arg_gff_struct =
     map_result (\<lambda>kv. gff_get_ndugff_field (fst kv) (snd kv)) arg_gff_struct"

text \<open>
  \<open>load_gff\<close> on a path and the outcome of \<open>arg_input_fp.open\<close> and \<open>gff.read\<close> on
  the file there: the fields of the root struct and the file type, or the exception
  raised (\<open>AttributeError\<close> for a \<open>str\<close> as the argument). The result is the instance
  and the lines printed.
\<close>

definition load_gff ::
  "path \<Rightarrow> exn + (string \<times> gff_value) list \<times> string \<Rightarrow> single \<Rightarrow> exn + single \<times> string list"
  where
  "load_gff arg_input_fp loaded self =
     (if is_gff_file arg_input_fp False then
        (case (case loaded of
                 Inl x \<Rightarrow> Inl x
               | Inr (root_struct, gff_root_type) \<Rightarrow>
                   (case gff_get_ndugff_dict root_struct of
                      Inl x \<Rightarrow> Inl x
                    | Inr d \<Rightarrow>
                        reorder
                          [(gff_get_ndugff_key ''gff.MagicTag'' ''__type__'' None,
                            VStr gff_root_type),
                           (gff_get_ndugff_key ''gff.Struct'' ''__root__'' None, VDict d)])) of
           Inl (ValueError m) \<Rightarrow>
             Inr (self, [''Failed to process file: '' @ name arg_input_fp])
         | Inl x \<Rightarrow> Inl x
         | Inr d \<Rightarrow> Inr (self\<lparr>ndugff_dict := Some d\<rparr>, []))
      else Inr (self, []))"

section \<open>Writing JSON and binary GFF\<close>

text \<open>\<open>d.update(e)\<close> for two dictionaries with texts as keys.\<close>

definition jupdate :: "(string \<times> json) list \<Rightarrow> (string \<times> json) list \<Rightarrow> (string \<times> json) list"
  where
  "jupdate d e = fold (\<lambda>kv acc. jset acc (fst kv) (snd kv)) e d"

text \<open>\<open>get_json_type\<close>: the JSON name of a DSL type, \<open>None\<close> for \<open>gff.Language\<close>.\<close>

definition get_json_type :: "string \<Rightarrow> exn + json" where
  "get_json_type arg_dsl_type =
     (case find (\<lambda>kv. arg_dsl_type = dsl_type_name (snd kv)) FIELD_TYPES of
        None \<Rightarrow> Inl (ValueError UnknownDslType)
      | Some kv \<Rightarrow> Inr (case json_type_name (snd kv) of None \<Rightarrow> JNull | Some t \<Rightarrow> JStr t))"

definition get_json_language_id :: "string \<Rightarrow> exn + string" where
  "get_json_language_id arg_name =
     (case find (\<lambda>kv. snd kv = arg_name) LANGUAGES of
        None \<Rightarrow> Inl (ValueError UnknownLanguageName)
      | Some kv \<Rightarrow> Inr (str_int (fst kv)))"

text \<open>
  A value of a field that is no node, as \<open>json.dump\<close> writes it. A dictionary keyed by
  \<open>_Key\<close> objects makes \<open>json.dump\<close> raise \<open>TypeError\<close>; no loader puts one under such
  a field.
\<close>

fun json_of_value :: "ndugff_value \<Rightarrow> exn + json" where
  "json_of_value (VInt i) = Inr (JInt i)"
| "json_of_value (VFloat r) = Inr (JFloat r)"
| "json_of_value (VStr t) = Inr (JStr t)"
| "json_of_value (VDict d) = (if d = [] then Inr (JObj []) else Inl TypeError)"
| "json_of_value (VList vs) =
     (case map_result json_of_value vs of Inl x \<Rightarrow> Inl x | Inr js \<Rightarrow> Inr (JArr js))"

text \<open>\<open>get_json_cexolocstring\<close>, with \<open>fold_result\<close> for its loop over the items.\<close>

fun fold_result :: "('a \<Rightarrow> 'b \<Rightarrow> exn + 'b) \<Rightarrow> 'a list \<Rightarrow> 'b \<Rightarrow> exn + 'b" where
  "fold_result f [] acc = Inr acc"
| "fold_result f (x # xs) acc =
     (case f x acc of Inl e \<Rightarrow> Inl e | Inr acc' \<Rightarrow> fold_result f xs acc')"

lemma fold_result_cong [fundef_cong]:
  "xs = ys \<Longrightarrow> a = b \<Longrightarrow> (\<And>x acc. x \<in> set ys \<Longrightarrow> f x acc = g x acc) \<Longrightarrow>
   fold_result f xs a = fold_result g ys b"
  by (induction ys arbitrary: xs a b) (auto split: sum.splits)

definition get_json_cexolocstring :: "ndugff_value \<Rightarrow> exn + (string \<times> json) list" where
  "get_json_cexolocstring arg_ndugff_value =
     (case arg_ndugff_value of
        VDict items \<Rightarrow>
          fold_result
            (\<lambda>kv d.
               if k_type (fst kv) = ''gff.Dword'' \<and> k_name (fst kv) = ''strref''
                  \<and> snd kv \<noteq> VInt GFF_UINT32_SENTINEL
               then (case json_of_value (snd kv) of
                       Inl x \<Rightarrow> Inl x
                     | Inr j \<Rightarrow> Inr (jset d ''id'' j))
               else if k_type (fst kv) = ''gff.Language''
               then (case get_json_language_id (k_name (fst kv)) of
                       Inl x \<Rightarrow> Inl x
                     | Inr lid \<Rightarrow>
                         (case json_of_value (snd kv) of
                            Inl x \<Rightarrow> Inl x
                          | Inr j \<Rightarrow> Inr (jset d lid j)))
               else Inr d)
            items []
      | _ \<Rightarrow> Inl AttributeError)"

text \<open>
  \<open>get_json_dict\<close> of \<open>write_json\<close>, on the value it is called with: \<open>items\<close> is a
  method of \<open>dict\<close>, and a value that is no list is iterated by the comprehension of a
  list field, which fails on a number and gives the characters of a text.
\<close>

function get_json_dict :: "ndugff_value \<Rightarrow> exn + (string \<times> json) list" where
  "get_json_dict (VDict arg_ndugff_dict) =
     fold_result
       (\<lambda>kv json_dict.
          case get_json_type (k_type (fst kv)) of
            Inl x \<Rightarrow> Inl x
          | Inr json_type \<Rightarrow>
              if json_type = JStr ''__data_type'' then
                (case json_of_value (snd kv) of
                   Inl x \<Rightarrow> Inl x
                 | Inr j \<Rightarrow> Inr (jset json_dict ''__data_type'' j))
              else if k_type (fst kv) = ''gff.Struct'' then
                (let struct_id = (case k_id (fst kv) of None \<Rightarrow> JNull | Some i \<Rightarrow> JInt i) in
                 case get_json_dict (snd kv) of
                   Inl x \<Rightarrow> Inl x
                 | Inr body \<Rightarrow>
                     if k_name (fst kv) = ''__root__'' then Inr (jupdate json_dict body)
                     else if k_name (fst kv) = [] then
                       Inr (jupdate json_dict (jupdate [(''__struct_id'', struct_id)] body))
                     else
                       Inr (jset json_dict (k_name (fst kv))
                              (JObj [(''type'', json_type), (''__struct_id'', struct_id),
                                     (''value'',
                                      JObj (jupdate [(''__struct_id'', struct_id)] body))])))
              else if k_type (fst kv) = ''gff.List'' then
                (case (case snd kv of
                         VList vs \<Rightarrow>
                           map_result
                             (\<lambda>c. case get_json_dict c of
                                     Inl x \<Rightarrow> Inl x
                                   | Inr cd \<Rightarrow> Inr (JObj cd)) vs
                       | VStr t \<Rightarrow> (if t = [] then Inr [] else Inl AttributeError)
                       | VDict d \<Rightarrow> (if d = [] then Inr [] else Inl AttributeError)
                       | _ \<Rightarrow> Inl TypeError) of
                   Inl x \<Rightarrow> Inl x
                 | Inr js \<Rightarrow>
                     Inr (jset json_dict (k_name (fst kv))
                            (JObj [(''type'', json_type), (''value'', JArr js)])))
              else if k_type (fst kv) = ''gff.CExoLocString'' then
                (case get_json_cexolocstring (snd kv) of
                   Inl x \<Rightarrow> Inl x
                 | Inr ld \<Rightarrow>
                     Inr (jset json_dict (k_name (fst kv))
                            (JObj [(''type'', json_type), (''value'', JObj ld)])))
              else
                (case json_of_value (snd kv) of
                   Inl x \<Rightarrow> Inl x
                 | Inr j \<Rightarrow>
                     Inr (jset json_dict (k_name (fst kv))
                            (JObj [(''type'', json_type),
                                   (if k_type (fst kv) = ''gff.Base64String''
                                    then ''value64'' else ''value'', j)]))))
       arg_ndugff_dict []"
| "get_json_dict (VList vs) = Inl AttributeError"
| "get_json_dict (VInt i) = Inl AttributeError"
| "get_json_dict (VFloat r) = Inl AttributeError"
| "get_json_dict (VStr t) = Inl AttributeError"
  by pat_completeness auto
termination
proof (relation "measure size")
  show "wf (measure size)" by simp
next
  fix arg_ndugff_dict :: ndugff_dict and kv
  assume "kv \<in> set arg_ndugff_dict"
  then show "(snd kv, VDict arg_ndugff_dict) \<in> measure size"
    using size_dict_member [of "fst kv" "snd kv" arg_ndugff_dict] by simp
next
  fix arg_ndugff_dict :: ndugff_dict and kv vs c
  assume kv: "kv \<in> set arg_ndugff_dict" and vl: "snd kv = VList vs" and c: "c \<in> set vs"
  from kv vl have "(fst kv, VList vs) \<in> set arg_ndugff_dict"
    by (metis prod.collapse)
  then have "size (VList vs) < Suc (size_list (size_prod (\<lambda>_. 0) size) arg_ndugff_dict)"
    by (rule size_dict_member)
  moreover have "size c < Suc (size_list size vs)" using c by (rule size_list_member)
  ultimately show "(c, VDict arg_ndugff_dict) \<in> measure size" by simp
qed

text \<open>
  \<open>write_json\<close>: the instance it returns and the value it hands to \<open>json.dump\<close>, if it
  writes a file. No handler surrounds its processing.
\<close>

definition write_json :: "path \<Rightarrow> single \<Rightarrow> exn + single \<times> json option" where
  "write_json arg_output_fp self =
     (case ndugff_dict self of
        None \<Rightarrow> Inr (self, None)
      | Some d \<Rightarrow>
          if is_json_file arg_output_fp True \<and> d \<noteq> [] then
            (case get_json_dict (VDict d) of
               Inl x \<Rightarrow> Inl x
             | Inr json_dict \<Rightarrow> Inr (self, Some (JObj json_dict)))
          else Inr (self, None))"

text \<open>
  \<open>write_gff\<close>. Its processing, \<open>get_gff_data\<close> and \<open>gff.write\<close>, builds and writes
  values of the library \<open>nwn\<close>; it is the parameter \<open>G\<close>: the bytes written for a
  document, or the exception raised. No handler surrounds it.
\<close>

definition write_gff ::
  "(ndugff_dict \<Rightarrow> exn + nat list) \<Rightarrow> path \<Rightarrow> single \<Rightarrow> exn + single \<times> nat list option" where
  "write_gff G arg_output_fp self =
     (case ndugff_dict self of
        None \<Rightarrow> Inr (self, None)
      | Some d \<Rightarrow>
          if is_gff_file arg_output_fp True \<and> d \<noteq> [] then
            (case G d of
               Inl x \<Rightarrow> Inl x
             | Inr bytes \<Rightarrow> Inr (self, Some bytes))
          else Inr (self, None))"

section \<open>Predicates on states and documents\<close>

text \<open>A dictionary or a list: a value that the constructor of a node type builds.\<close>

definition is_container :: "ndugff_value \<Rightarrow> bool" where
  "is_container v = (case v of VDict d \<Rightarrow> True | VList vs \<Rightarrow> True | _ \<Rightarrow> False)"

text \<open>
  What holds of the line object and the stack between two turns of the loop of
  \<open>build_ndugff_dict\<close>: unless lines are being skipped the line object is fresh, and every
  entry of the stack holds a dictionary or a list.
\<close>

definition state_ok :: "dsl_line \<times> stack \<Rightarrow> bool" where
  "state_ok s = ((l_skip (fst s) \<or> \<not> l_is_node (fst s))
                 \<and> list_all (\<lambda>e. is_container (snd e)) (snd s))"



section \<open>Properties\<close>

subsection \<open>The exceptions of the loaders\<close>

lemma map_result_Inl: "map_result f xs = Inl e \<Longrightarrow> \<exists>x \<in> set xs. f x = Inl e"
  by (induction xs) (auto split: sum.splits)


lemma leaf_value_error: "leaf_value ty v = Inl e \<Longrightarrow> \<exists>m. e = ValueError m"
  by (auto simp: leaf_value_def Let_def split: if_splits)

lemma build_dsl_line_error: "build_dsl_line l ln = Inl e \<Longrightarrow> \<exists>m. e = ValueError m"
  by (auto simp: build_dsl_line_def Let_def split: if_splits option.splits sum.splits dest: leaf_value_error)

lemma build_dsl_line_node:
  "build_dsl_line l ln = Inr l' \<Longrightarrow> \<not> l_skip l' \<Longrightarrow> \<not> l_is_node l \<Longrightarrow> l_is_node l' \<Longrightarrow>
   \<exists>ty. l_type l' = Some ty \<and> ty \<in> NODE_TYPES"
  by (auto simp: build_dsl_line_def Let_def split: if_splits option.splits sum.splits)

lemma build_dsl_line_skip: "build_dsl_line l ln = Inr l' \<Longrightarrow> l_skip l \<Longrightarrow> l_skip l'"
  by (auto simp: build_dsl_line_def Let_def split: if_splits option.splits sum.splits)

lemma node_type_ctor:
  "ty \<in> NODE_TYPES \<Longrightarrow> get_ndugff_value_type ty = Some PyDict \<or> get_ndugff_value_type ty = Some PyList"
  by (auto simp: NODE_TYPES_def get_ndugff_value_type_def FIELD_TYPES_def)

lemma construct_error: "construct F ty v = Inl e \<Longrightarrow> \<exists>m. e = ValueError m"
  by (cases "(F, ty, v)" rule: construct.cases) (auto split: option.splits if_splits)

lemma build_ndugff_field_error: "build_ndugff_field F l = Inl e \<Longrightarrow> \<exists>m. e = ValueError m"
  by (auto simp: build_ndugff_field_def split: if_splits option.splits sum.splits dest: construct_error)

lemma build_ndugff_field_node:
  "build_ndugff_field F l = Inr fld \<Longrightarrow> l_type l = Some ty \<Longrightarrow> ty \<in> NODE_TYPES \<Longrightarrow> l_is_node l \<Longrightarrow>
   is_container (f_value fld)"
  using node_type_ctor [of ty]
  by (auto simp: build_ndugff_field_def is_container_def split: if_splits option.splits sum.splits)

lemma build_ndugff_field_is_node:
  "build_ndugff_field F l = Inr fld \<Longrightarrow> f_is_node fld = l_is_node l"
  by (auto simp: build_ndugff_field_def split: if_splits option.splits sum.splits)

lemma attach_container: "is_container p \<Longrightarrow> \<exists>p'. attach p k v = Inr p' \<and> is_container p'"
  by (cases p) (auto simp: is_container_def)


lemma reset_flags [simp]: "\<not> l_skip (reset l)" "\<not> l_is_node (reset l)"
  by (simp_all add: reset_def)

lemma step_ok:
  assumes ok: "state_ok s" and st: "step F s ln = Inr s'"
  shows "state_ok s'"
proof -
  from st obtain l where bl: "build_dsl_line (fst s) ln = Inr l"
    by (auto simp: step_def split: sum.splits)
  show ?thesis
  proof (cases "l_skip l")
    case True
    with st bl have "s' = (l, snd s)" by (simp add: step_def)
    with ok True show ?thesis by (simp add: state_ok_def)
  next
    case ns: False
    then have nsk: "\<not> l_skip (fst s)" using bl build_dsl_line_skip by blast
    with ok have nn: "\<not> l_is_node (fst s)" by (simp add: state_ok_def)
    show ?thesis
    proof (cases "l_is_node_end l")
      case True
      with st bl ns obtain k child pk parent st0 parent' where
        "snd s = (Some k, child) # (pk, parent) # st0"
        "attach parent k child = Inr parent'" "s' = (reset l, (pk, parent') # st0)"
        by (auto simp: step_def split: list.splits option.splits sum.splits prod.splits)
      moreover with ok have "is_container parent" by (simp add: state_ok_def)
      ultimately show ?thesis using ok attach_container [of parent k child]
        by (auto simp: state_ok_def)
    next
      case ne: False
      with st bl ns obtain fld where bf: "build_ndugff_field F l = Inr fld"
        by (auto simp: step_def split: sum.splits)
      show ?thesis
      proof (cases "f_is_node fld")
        case True
        then have "l_is_node l" using bf build_ndugff_field_is_node by simp
        then obtain ty where "l_type l = Some ty" "ty \<in> NODE_TYPES"
          using build_dsl_line_node [OF bl ns nn] by blast
        then have "is_container (f_value fld)"
          using build_ndugff_field_node [OF bf] \<open>l_is_node l\<close> by simp
        moreover from st bl ns ne bf True
        have "s' = (reset l, (Some (f_key fld), f_value fld) # snd s)"
          by (simp add: step_def)
        ultimately show ?thesis using ok by (simp add: state_ok_def)
      next
        case False
        with st bl ns ne bf obtain pk kvs st0 where
          "snd s = (pk, VDict kvs) # st0"
          "s' = (reset l, (pk, VDict (kvs @ [(f_key fld, f_value fld)])) # st0)"
          by (auto simp: step_def split: list.splits ndugff_value.splits)
        then show ?thesis using ok by (simp add: state_ok_def is_container_def)
      qed
    qed
  qed
qed

lemma step_error:
  assumes ok: "state_ok s" and st: "step F s ln = Inl e"
  shows "\<exists>m. e = ValueError m"
proof (cases "build_dsl_line (fst s) ln")
  case (Inl x)
  with st have "e = x" by (simp add: step_def)
  with Inl show ?thesis using build_dsl_line_error by blast
next
  case (Inr l)
  show ?thesis
  proof (cases "l_is_node_end l")
    case True
    show ?thesis
    proof (cases "\<exists>k child pk parent st0. snd s = (Some k, child) # (pk, parent) # st0")
      case True
      then obtain k child pk parent st0 where sh: "snd s = (Some k, child) # (pk, parent) # st0"
        by blast
      with ok have "is_container parent" by (simp add: state_ok_def)
      then obtain p' where "attach parent k child = Inr p'" using attach_container by blast
      with st Inr sh \<open>l_is_node_end l\<close> show ?thesis
        by (auto simp: step_def split: if_splits)
    next
      case False
      with st Inr \<open>l_is_node_end l\<close> show ?thesis
        by (auto simp: step_def split: if_splits list.splits option.splits sum.splits prod.splits)
    qed
  next
    case False
    with st Inr show ?thesis
      by (auto simp: step_def split: if_splits list.splits sum.splits ndugff_value.splits
               dest: build_ndugff_field_error)
  qed
qed

lemma run_lines_error:
  "state_ok s \<Longrightarrow> run_lines F s lns = Inl e \<Longrightarrow> \<exists>m. e = ValueError m"
proof (induction lns arbitrary: s)
  case Nil
  then show ?case by simp
next
  case (Cons ln lns)
  show ?case
  proof (cases "step F s ln")
    case (Inl x)
    with Cons.prems show ?thesis using step_error by auto
  next
    case (Inr s')
    with Cons.prems have "state_ok s'" using step_ok by blast
    with Cons Inr show ?thesis by auto
  qed
qed

lemma sort_recursive_shape:
  "sort_recursive v = r \<Longrightarrow>
     (case r of Inl e \<Rightarrow> e = ValueError NotInList
      | Inr v' \<Rightarrow> (case v of VDict d \<Rightarrow> (\<exists>d'. v' = VDict d') | VList vs \<Rightarrow> (\<exists>vs'. v' = VList vs') | _ \<Rightarrow> v' = v))"
proof (induction v arbitrary: r rule: sort_recursive.induct)
  case (1 kvs)
  show ?case
  proof (cases "sorted_items kvs")
    case (Inl x)
    then have "x = ValueError NotInList" by (auto simp: sorted_items_def split: if_splits)
    with 1 Inl show ?thesis by auto
  next
    case (Inr si)
    show ?thesis
    proof (cases r)
      case (Inl e)
      with 1(2) Inr obtain kv where kv: "kv \<in> set si"
          and f: "(case sort_recursive (snd kv) of Inl e \<Rightarrow> Inl e | Inr v \<Rightarrow> Inr (fst kv, v)) = Inl e"
        by (auto split: sum.splits dest!: map_result_Inl)
      then have "sort_recursive (snd kv) = Inl e" by (auto split: sum.splits)
      with "1.IH" [OF Inr kv] have "e = ValueError NotInList" by auto
      with Inl show ?thesis by simp
    next
      case (Inr b)
      with 1(2) \<open>sorted_items kvs = Inr si\<close> show ?thesis by (auto split: sum.splits)
    qed
  qed
next
  case (2 es)
  show ?case
  proof (cases r)
    case (Inl e)
    with 2(2) obtain x where "x \<in> set es" "sort_recursive x = Inl e"
      by (auto split: sum.splits dest!: map_result_Inl)
    with "2.IH" have "e = ValueError NotInList" by fastforce
    with Inl show ?thesis by simp
  next
    case (Inr b)
    with 2(2) show ?thesis by (auto split: sum.splits)
  qed
qed auto

lemma reorder_error: "reorder d = Inl e \<Longrightarrow> e = ValueError NotInList"
  using sort_recursive_shape [of "VDict d" "sort_recursive (VDict d)"]
  by (auto simp: reorder_def split: sum.splits ndugff_value.splits)

lemma initial_state_ok: "state_ok (new_dsl_line, [(None, VDict [])])"
  by (simp add: state_ok_def new_dsl_line_def is_container_def)

lemma build_ndugff_dict_error: "build_ndugff_dict F text = Inl e \<Longrightarrow> \<exists>m. e = ValueError m"
  using run_lines_error [OF initial_state_ok]
  by (fastforce simp: build_ndugff_dict_def split: sum.splits dest: reorder_error)


subsection \<open>Extension validation of the text forms\<close>

text \<open>
  C9. The claim: a path accepted by \<open>is_ndugff_file\<close> or \<open>is_json_file\<close> has exactly
  two suffixes, the inner one a GFF extension, and a path without an inner suffix is
  rejected. The code skips the check of the inner suffix when there is none
  (\<open>if arg_base_type and base_suffix\<close>): \<open>foo.ndugff\<close> and \<open>foo.json\<close>, with one suffix
  each, are accepted by both validators' code.
\<close>

theorem text_validators_accept_single_suffix:
  "is_ndugff_file \<lparr>name = ''foo.ndugff'', suffixes = [''.ndugff''],
                    is_file = True, is_dir = False\<rparr> False
   \<and> is_json_file \<lparr>name = ''foo.json'', suffixes = [''.json''],
                    is_file = True, is_dir = False\<rparr> False"
  by (simp add: is_ndugff_file_def is_json_file_def is_file_of_type_def split_suffixes_def
      suffix_matches_def FILE_EXTENSIONS_def lower_def lower_char_def is_upper_def)

subsection \<open>Fallback of the ERF file type\<close>

text \<open>
  C7. The claim: for an output file type that is not recognised, the ERF writer falls back
  to the four bytes \<open>ERF\<close> and a space, and prints a warning. The warning is printed, but
  the fallback of the code is the three bytes \<open>ERF\<close>, without the space that the table
  entry for \<open>.erf\<close> has. The extension \<open>.nwm\<close>, which \<open>is_erf_folder\<close> accepts, is
  not in the table and takes the fallback.
\<close>

theorem erf_fallback_has_three_bytes:
  "get_erf_type_by_extension ''.nwm'' =
     (''ERF'', [[CHR 0x22] @ ''.nwm'' @ [CHR 0x22] @
        '' is not a recognized file extension. Falling back to the default file type (ERF).''])
   \<and> length (fst (get_erf_type_by_extension ''.nwm'')) = 3
   \<and> map_of ERF_TYPES ''.erf'' = Some ''ERF ''"
  by (simp add: get_erf_type_by_extension_def ERF_TYPES_def lower_def lower_char_def
      is_upper_def)

subsection \<open>Scopes left open\<close>

text \<open>
  C5. The claim: the parser raises an error for an \<open>end()\<close> without an open node, and
  also when the input ends with nodes still open. The loop of \<open>build_ndugff_dict\<close> has
  the first check only. A file whose single line opens a struct and never closes it loads
  without an error: the open node is dropped and the document is the empty dictionary.
\<close>

theorem missing_end_is_not_an_error:
  "build_ndugff_dict no_float ''gff.Struct(a).id(0)'' = Inr []
   \<and> load_ndugff no_float
        \<lparr>name = ''foo.utc.ndugff'', suffixes = [''.utc'', ''.ndugff''],
         is_file = True, is_dir = False\<rparr>
        (Inr ''gff.Struct(a).id(0)'') \<lparr>ndugff_dict = None\<rparr> = Inr \<lparr>ndugff_dict = Some []\<rparr>
   \<and> build_ndugff_dict no_float ''end()'' = Inl (ValueError UnexpectedEnd)"
  by code_simp

subsection \<open>Errors of the load operations\<close>

text \<open>
  C2. The claim: every parse or conversion error of \<open>load_gff\<close>, \<open>load_json\<close> and
  \<open>load_ndugff\<close> surfaces to the caller, none is caught inside. Each of the three wraps
  its processing in \<open>try ... except ValueError\<close>. The line \<open>gff.Byte(a)\<close> has no
  value: the parser raises, and \<open>load_ndugff\<close> returns the instance as it was.
\<close>

theorem load_returns_after_parse_error:
  "build_ndugff_dict no_float ''gff.Byte(a)'' = Inl (ValueError MissingValue)
   \<and> load_ndugff no_float
        \<lparr>name = ''foo.utc.ndugff'', suffixes = [''.utc'', ''.ndugff''],
         is_file = True, is_dir = False\<rparr>
        (Inr ''gff.Byte(a)'') \<lparr>ndugff_dict = None\<rparr> = Inr \<lparr>ndugff_dict = None\<rparr>"
  by code_simp

text \<open>
  C2, as the code has it: a \<open>ValueError\<close> raised while a file is read, parsed or
  converted does not surface. The load operation catches it and returns the instance
  with the document it held; \<open>load_gff\<close> prints the line \<open>Failed to process file:\<close>
  with the name of the file first, and no other line. An exception of another class is
  not caught: it leaves the operation, and no exception that leaves a load operation is
  a \<open>ValueError\<close>.
\<close>

theorem load_catches_value_error:
  "load_ndugff F fp (Inl (ValueError m)) self = Inr self
   \<and> (build_ndugff_dict F content = Inl (ValueError m)
        \<longrightarrow> load_ndugff F fp (Inr content) self = Inr self)
   \<and> (load_ndugff F fp opened self = Inl x \<longrightarrow> (\<forall>m'. x \<noteq> ValueError m'))
   \<and> (is_ndugff_file fp False \<longrightarrow> (\<forall>m'. x \<noteq> ValueError m')
        \<longrightarrow> load_ndugff F fp (Inl x) self = Inl x)
   \<and> load_json T jp (Inl (ValueError m)) self = Inr self
   \<and> (get_normalized_json_root raw = Inl (ValueError m)
        \<longrightarrow> load_json T jp (Inr raw) self = Inr self)
   \<and> (get_normalized_json_root raw = Inr jd \<longrightarrow> get_ndugff_dict T jd = Inl (ValueError m)
        \<longrightarrow> load_json T jp (Inr raw) self = Inr self)
   \<and> (load_json T jp jl self = Inl x \<longrightarrow> (\<forall>m'. x \<noteq> ValueError m'))
   \<and> (is_json_file jp False \<longrightarrow> (\<forall>m'. x \<noteq> ValueError m')
        \<longrightarrow> load_json T jp (Inl x) self = Inl x)
   \<and> (is_gff_file gp False
        \<longrightarrow> load_gff gp (Inl (ValueError m)) self
            = Inr (self, [''Failed to process file: '' @ name gp]))
   \<and> (is_gff_file gp False \<longrightarrow> gff_get_ndugff_dict root = Inl (ValueError m)
        \<longrightarrow> load_gff gp (Inr (root, ty)) self
            = Inr (self, [''Failed to process file: '' @ name gp]))
   \<and> (load_gff gp gl self = Inl x \<longrightarrow> (\<forall>m'. x \<noteq> ValueError m'))
   \<and> (is_gff_file gp False \<longrightarrow> (\<forall>m'. x \<noteq> ValueError m')
        \<longrightarrow> load_gff gp (Inl x) self = Inl x)"
proof (intro conjI impI)
  show "load_ndugff F fp (Inl (ValueError m)) self = Inr self"
    by (simp add: load_ndugff_def)
  show "load_ndugff F fp (Inr content) self = Inr self"
    if "build_ndugff_dict F content = Inl (ValueError m)"
    using that by (simp add: load_ndugff_def)
  show "\<forall>m'. x \<noteq> ValueError m'" if "load_ndugff F fp opened self = Inl x"
    using that by (auto simp: load_ndugff_def split: if_splits sum.splits exn.splits)
  show "load_ndugff F fp (Inl x) self = Inl x"
    if "is_ndugff_file fp False" "\<forall>m'. x \<noteq> ValueError m'"
    using that by (cases x) (simp_all add: load_ndugff_def)
  show "load_json T jp (Inl (ValueError m)) self = Inr self"
    by (simp add: load_json_def)
  show "load_json T jp (Inr raw) self = Inr self"
    if "get_normalized_json_root raw = Inl (ValueError m)"
    using that by (simp add: load_json_def)
  show "load_json T jp (Inr raw) self = Inr self"
    if "get_normalized_json_root raw = Inr jd" "get_ndugff_dict T jd = Inl (ValueError m)"
    using that by (simp add: load_json_def)
  show "\<forall>m'. x \<noteq> ValueError m'" if "load_json T jp jl self = Inl x"
    using that by (auto simp: load_json_def split: if_splits sum.splits exn.splits)
  show "load_json T jp (Inl x) self = Inl x"
    if "is_json_file jp False" "\<forall>m'. x \<noteq> ValueError m'"
    using that by (cases x) (simp_all add: load_json_def)
  show "load_gff gp (Inl (ValueError m)) self
          = Inr (self, [''Failed to process file: '' @ name gp])"
    if "is_gff_file gp False"
    using that by (simp add: load_gff_def)
  show "load_gff gp (Inr (root, ty)) self
          = Inr (self, [''Failed to process file: '' @ name gp])"
    if "is_gff_file gp False" "gff_get_ndugff_dict root = Inl (ValueError m)"
    using that by (simp add: load_gff_def)
  show "\<forall>m'. x \<noteq> ValueError m'" if "load_gff gp gl self = Inl x"
    using that by (auto simp: load_gff_def split: if_splits sum.splits exn.splits prod.splits)
  show "load_gff gp (Inl x) self = Inl x"
    if "is_gff_file gp False" "\<forall>m'. x \<noteq> ValueError m'"
    using that by (cases x) (simp_all add: load_gff_def)
qed

theorem load_catches_value_error_witness:
  "load_ndugff no_float
     \<lparr>name = ''a.utc.ndugff'', suffixes = [''.utc'', ''.ndugff''], is_file = True, is_dir = False\<rparr>
     (Inr ''gff.Int(): 1'') \<lparr>ndugff_dict = Some []\<rparr> = Inr \<lparr>ndugff_dict = Some []\<rparr>
   \<and> load_ndugff no_float
     \<lparr>name = ''a.utc.ndugff'', suffixes = [''.utc'', ''.ndugff''], is_file = True, is_dir = False\<rparr>
     (Inl AttributeError) \<lparr>ndugff_dict = Some []\<rparr> = Inl AttributeError
   \<and> load_json no_trunc
     \<lparr>name = ''a.utc.json'', suffixes = [''.utc'', ''.json''], is_file = True, is_dir = False\<rparr>
     (Inr (JObj [])) \<lparr>ndugff_dict = Some []\<rparr> = Inr \<lparr>ndugff_dict = Some []\<rparr>
   \<and> load_gff
     \<lparr>name = ''a.utc'', suffixes = [''.utc''], is_file = True, is_dir = False\<rparr>
     (Inr ([(''A'', GffOther)], ''UTC '')) \<lparr>ndugff_dict = Some []\<rparr>
       = Inr (\<lparr>ndugff_dict = Some []\<rparr>, [''Failed to process file: a.utc''])"
proof -
  have 1: "build_ndugff_dict no_float ''gff.Int(): 1'' = Inl (ValueError MissingName)"
    by code_simp
  have 2: "get_normalized_json_root (JObj []) = Inl (ValueError MissingDataType)"
    by code_simp
  have 3: "gff_get_ndugff_dict [(''A'', GffOther)] = Inl (ValueError UnknownValueType)"
    by code_simp
  have 4: "is_gff_file
     \<lparr>name = ''a.utc'', suffixes = [''.utc''], is_file = True, is_dir = False\<rparr> False"
    by code_simp
  have 5: "is_ndugff_file
     \<lparr>name = ''a.utc.ndugff'', suffixes = [''.utc'', ''.ndugff''], is_file = True, is_dir = False\<rparr>
     False"
    by code_simp
  have 6: "\<forall>m'. AttributeError \<noteq> ValueError m'" by simp
  note t = load_catches_value_error [where F = no_float and T = no_trunc
      and self = "\<lparr>ndugff_dict = Some []\<rparr>"]
  have "load_ndugff no_float
     \<lparr>name = ''a.utc.ndugff'', suffixes = [''.utc'', ''.ndugff''], is_file = True, is_dir = False\<rparr>
     (Inr ''gff.Int(): 1'') \<lparr>ndugff_dict = Some []\<rparr> = Inr \<lparr>ndugff_dict = Some []\<rparr>"
    using 1 t [where content = "''gff.Int(): 1''" and m = MissingName] by blast
  moreover have "load_ndugff no_float
     \<lparr>name = ''a.utc.ndugff'', suffixes = [''.utc'', ''.ndugff''], is_file = True, is_dir = False\<rparr>
     (Inl AttributeError) \<lparr>ndugff_dict = Some []\<rparr> = Inl AttributeError"
    using 5 6 t [where x = AttributeError and fp = "\<lparr>name = ''a.utc.ndugff'',
      suffixes = [''.utc'', ''.ndugff''], is_file = True, is_dir = False\<rparr>"] by blast
  moreover have "load_json no_trunc
     \<lparr>name = ''a.utc.json'', suffixes = [''.utc'', ''.json''], is_file = True, is_dir = False\<rparr>
     (Inr (JObj [])) \<lparr>ndugff_dict = Some []\<rparr> = Inr \<lparr>ndugff_dict = Some []\<rparr>"
    using 2 t [where raw = "JObj []" and m = MissingDataType] by blast
  moreover have "load_gff
     \<lparr>name = ''a.utc'', suffixes = [''.utc''], is_file = True, is_dir = False\<rparr>
     (Inr ([(''A'', GffOther)], ''UTC '')) \<lparr>ndugff_dict = Some []\<rparr>
       = Inr (\<lparr>ndugff_dict = Some []\<rparr>, [''Failed to process file: a.utc''])"
    using 3 4 t [where root = "[(''A'', GffOther)]" and m = UnknownValueType
      and gp = "\<lparr>name = ''a.utc'', suffixes = [''.utc''], is_file = True, is_dir = False\<rparr>"]
    by simp
  ultimately show ?thesis by blast
qed

subsection \<open>Operations that change nothing\<close>

text \<open>
  C10. The claim: a load or write operation whose path is rejected, or whose processing
  raises, changes nothing and returns the instance, so that a chain of calls never fails.
  The loaders catch \<open>ValueError\<close> only, and the writers catch nothing. A JSON field
  that is a number makes \<open>load_json\<close> raise \<open>AttributeError\<close>; a document with a
  language name outside the table, which \<open>load_ndugff\<close> accepts, makes \<open>write_json\<close>
  raise \<open>ValueError\<close>.
\<close>

theorem processing_error_leaves_operation:
  "load_json no_trunc
     \<lparr>name = ''a.utc.json'', suffixes = [''.utc'', ''.json''], is_file = True, is_dir = False\<rparr>
     (Inr (JObj [(''__data_type'', JStr ''UTC ''), (''A'', JInt 5)]))
     \<lparr>ndugff_dict = None\<rparr> = Inl AttributeError
   \<and> load_ndugff no_float
     \<lparr>name = ''a.utc.ndugff'', suffixes = [''.utc'', ''.ndugff''], is_file = True, is_dir = False\<rparr>
     (Inr (''gff.CExoLocString(Name)'' @ [CHR 0x0A] @ ''gff.Language(KLINGON): x'' @ [CHR 0x0A]
           @ ''end()''))
     \<lparr>ndugff_dict = None\<rparr>
     = Inr \<lparr>ndugff_dict = Some
         [(\<lparr>k_type = ''gff.CExoLocString'', k_name = ''Name'', k_id = None\<rparr>,
           VDict [(\<lparr>k_type = ''gff.Language'', k_name = ''KLINGON'', k_id = None\<rparr>,
                   VStr ''x'')])]\<rparr>
   \<and> write_json
     \<lparr>name = ''a.utc.json'', suffixes = [''.utc'', ''.json''], is_file = False, is_dir = False\<rparr>
     \<lparr>ndugff_dict = Some
         [(\<lparr>k_type = ''gff.CExoLocString'', k_name = ''Name'', k_id = None\<rparr>,
           VDict [(\<lparr>k_type = ''gff.Language'', k_name = ''KLINGON'', k_id = None\<rparr>,
                   VStr ''x'')])]\<rparr>
     = Inl (ValueError UnknownLanguageName)"
  by code_simp

text \<open>
  C10, as the code has it: an operation whose path is rejected changes nothing, writes no
  file and returns the instance. A load returns either the instance as it was, or, for
  an accepted path and a processing that raised nothing, the instance with the new
  document; a write never changes the instance. Nothing is said of a processing that
  raises another exception than \<open>ValueError\<close> in a load, or any exception in a write:
  the exception leaves the operation.
\<close>

theorem rejected_path_is_noop:
  "(\<not> is_ndugff_file fp False \<longrightarrow> load_ndugff F fp opened self = Inr self)
   \<and> (\<not> is_json_file fp False \<longrightarrow> load_json T fp jl self = Inr self)
   \<and> (\<not> is_gff_file fp False \<longrightarrow> load_gff fp gl self = Inr (self, []))
   \<and> (\<not> is_ndugff_file fp True \<longrightarrow> write_ndugff fp self = Some (self, None))
   \<and> (\<not> is_json_file fp True \<longrightarrow> write_json fp self = Inr (self, None))
   \<and> (\<not> is_gff_file fp True \<longrightarrow> write_gff G fp self = Inr (self, None))
   \<and> (load_ndugff F fp opened self = Inr r \<longrightarrow>
        r = self \<or> is_ndugff_file fp False
                 \<and> (\<exists>content d. opened = Inr content \<and> build_ndugff_dict F content = Inr d
                        \<and> r = self\<lparr>ndugff_dict := Some d\<rparr>))
   \<and> (load_json T fp jl self = Inr r \<longrightarrow>
        r = self \<or> is_json_file fp False
                 \<and> (\<exists>raw jd d d'. jl = Inr raw \<and> get_normalized_json_root raw = Inr jd
                        \<and> get_ndugff_dict T jd = Inr d \<and> reorder d = Inr d'
                        \<and> r = self\<lparr>ndugff_dict := Some d'\<rparr>))
   \<and> (load_gff fp gl self = Inr (r, out) \<longrightarrow>
        r = self \<or> is_gff_file fp False
                 \<and> (\<exists>root ty d. gl = Inr (root, ty) \<and> gff_get_ndugff_dict root = Inr d))
   \<and> (write_ndugff fp self = Some (r, w) \<longrightarrow> r = self)
   \<and> (write_json fp self = Inr (r, jw) \<longrightarrow> r = self)
   \<and> (write_gff G fp self = Inr (r, gw) \<longrightarrow> r = self)"
proof (intro conjI impI)
  show "load_ndugff F fp opened self = Inr self" if "\<not> is_ndugff_file fp False"
    using that by (simp add: load_ndugff_def)
  show "load_json T fp jl self = Inr self" if "\<not> is_json_file fp False"
    using that by (simp add: load_json_def)
  show "load_gff fp gl self = Inr (self, [])" if "\<not> is_gff_file fp False"
    using that by (simp add: load_gff_def)
  show "write_ndugff fp self = Some (self, None)" if "\<not> is_ndugff_file fp True"
    using that by (simp add: write_ndugff_def split: option.splits)
  show "write_json fp self = Inr (self, None)" if "\<not> is_json_file fp True"
    using that by (simp add: write_json_def split: option.splits)
  show "write_gff G fp self = Inr (self, None)" if "\<not> is_gff_file fp True"
    using that by (simp add: write_gff_def split: option.splits)
  show "r = self \<or> is_ndugff_file fp False
          \<and> (\<exists>content d. opened = Inr content \<and> build_ndugff_dict F content = Inr d
                 \<and> r = self\<lparr>ndugff_dict := Some d\<rparr>)"
    if "load_ndugff F fp opened self = Inr r"
    using that by (auto simp: load_ndugff_def split: if_splits sum.splits exn.splits)
  show "r = self \<or> is_json_file fp False
          \<and> (\<exists>raw jd d d'. jl = Inr raw \<and> get_normalized_json_root raw = Inr jd
                 \<and> get_ndugff_dict T jd = Inr d \<and> reorder d = Inr d'
                 \<and> r = self\<lparr>ndugff_dict := Some d'\<rparr>)"
    if "load_json T fp jl self = Inr r"
    using that by (auto simp: load_json_def split: if_splits sum.splits exn.splits)
  show "r = self \<or> is_gff_file fp False
          \<and> (\<exists>root ty d. gl = Inr (root, ty) \<and> gff_get_ndugff_dict root = Inr d)"
    if "load_gff fp gl self = Inr (r, out)"
    using that by (auto simp: load_gff_def split: if_splits sum.splits exn.splits prod.splits)
  show "r = self" if "write_ndugff fp self = Some (r, w)"
    using that by (auto simp: write_ndugff_def split: if_splits option.splits)
  show "r = self" if "write_json fp self = Inr (r, jw)"
    using that by (auto simp: write_json_def split: if_splits option.splits sum.splits)
  show "r = self" if "write_gff G fp self = Inr (r, gw)"
    using that by (auto simp: write_gff_def split: if_splits option.splits sum.splits)
qed

theorem rejected_path_is_noop_witness:
  "load_ndugff no_float
     \<lparr>name = ''a.txt'', suffixes = [''.txt''], is_file = True, is_dir = False\<rparr>
     (Inr ''gff.Int(a): 1'') \<lparr>ndugff_dict = Some []\<rparr> = Inr \<lparr>ndugff_dict = Some []\<rparr>
   \<and> write_ndugff
     \<lparr>name = ''a.txt'', suffixes = [''.txt''], is_file = True, is_dir = False\<rparr>
     \<lparr>ndugff_dict = Some [(\<lparr>k_type = ''gff.Int'', k_name = ''a'', k_id = None\<rparr>, VInt 1)]\<rparr>
     = Some (\<lparr>ndugff_dict = Some [(\<lparr>k_type = ''gff.Int'', k_name = ''a'', k_id = None\<rparr>, VInt 1)]\<rparr>,
             None)"
proof -
  have 1: "\<not> is_ndugff_file
     \<lparr>name = ''a.txt'', suffixes = [''.txt''], is_file = True, is_dir = False\<rparr> False"
    by code_simp
  have 2: "\<not> is_ndugff_file
     \<lparr>name = ''a.txt'', suffixes = [''.txt''], is_file = True, is_dir = False\<rparr> True"
    by code_simp
  show ?thesis
    using 1 2
      rejected_path_is_noop [where F = no_float and opened = "Inr ''gff.Int(a): 1''"
        and fp = "\<lparr>name = ''a.txt'', suffixes = [''.txt''], is_file = True, is_dir = False\<rparr>"
        and self = "\<lparr>ndugff_dict = Some []\<rparr>"]
      rejected_path_is_noop [where
        fp = "\<lparr>name = ''a.txt'', suffixes = [''.txt''], is_file = True, is_dir = False\<rparr>"
        and self = "\<lparr>ndugff_dict = Some [(\<lparr>k_type = ''gff.Int'', k_name = ''a'', k_id = None\<rparr>, VInt 1)]\<rparr>"]
    by blast
qed

subsection \<open>Where the fields are put in order\<close>














subsection \<open>Line ends and trailing whitespace of string values\<close>

text \<open>
  C6. The claim: every reader folds \<open>\r\n\<close> to \<open>\n\<close> in the value of a string field
  and strips its trailing whitespace. \<open>load_gff\<close> does. \<open>load_json\<close> replaces the four
  characters backslash, \<open>r\<close>, backslash, \<open>n\<close> (the patterns are raw strings) and so
  keeps a carriage return and line feed; \<open>load_ndugff\<close> strips only inside
  \<open>unescape_escaped_string\<close>, which it calls for a value with a backslash, and so keeps
  the trailing blanks of a value without one.
\<close>

theorem strings_not_normalized_by_text_readers:
  "load_json no_trunc
     \<lparr>name = ''a.utc.json'', suffixes = [''.utc'', ''.json''], is_file = True, is_dir = False\<rparr>
     (Inr (JObj [(''__data_type'', JStr ''UTC ''),
                 (''A'', JObj [(''type'', JStr ''cexostring''),
                               (''value'', JStr (''a'' @ [CHR 0x0D, CHR 0x0A] @ ''b''))])]))
     \<lparr>ndugff_dict = None\<rparr>
     = Inr \<lparr>ndugff_dict = Some
         [(\<lparr>k_type = ''gff.MagicTag'', k_name = ''__type__'', k_id = None\<rparr>, VStr ''UTC ''),
          (\<lparr>k_type = ''gff.Struct'', k_name = ''__root__'', k_id = Some 4294967295\<rparr>,
           VDict [(\<lparr>k_type = ''gff.CExoString'', k_name = ''A'', k_id = None\<rparr>,
                   VStr (''a'' @ [CHR 0x0D, CHR 0x0A] @ ''b''))])]\<rparr>
   \<and> build_ndugff_dict no_float (''gff.CExoString(A): '' @ [CHR 0x22] @ ''abc  '' @ [CHR 0x22])
     = Inr [(\<lparr>k_type = ''gff.CExoString'', k_name = ''A'', k_id = None\<rparr>, VStr ''abc  '')]
   \<and> gff_get_ndugff_value (GffCExoString (''a'' @ [CHR 0x0D, CHR 0x0A] @ ''b  ''))
     = Inr (VStr (''a'' @ [CHR 0x0A] @ ''b''))"
  by code_simp

subsection \<open>The pretty sentinel\<close>












end
